theory Spec2Isabelle
  imports Complex_Main "HOL-Library.Word"
begin

unbundle bit_operations_syntax

section \<open>The AK8963 magnetometer driver (compass\_ak8963.c)\<close>

text \<open>
  A shallow embedding of \<^verbatim>\<open>src/main/drivers/compass_ak8963.c\<close>. The driver's globals
  (\<^verbatim>\<open>magGain\<close>, \<^verbatim>\<open>queuedRead\<close>, the function-local static \<^verbatim>\<open>state\<close>) are the fields
  of one record that every function takes and returns. The hardware the driver talks to
  is not part of the file: the clock, the MPU register accessors and the transport behind
  \<^verbatim>\<open>ak8963config\<close> are parameters of the model, so every theorem holds for any behaviour
  of that hardware.
\<close>

subsection \<open>Machine types and the register map\<close>

type_synonym uint8_t = "8 word"
type_synonym int16_t = "16 word"
type_synonym uint32_t = "32 word"

text \<open>A C array is a function from the index to the element; an uninitialised array is
  an arbitrary function.\<close>

type_synonym bytes = "nat \<Rightarrow> uint8_t"

text \<open>
  What an \<^verbatim>\<open>int16_t\<close> element of the caller's \<^verbatim>\<open>magData\<close> holds: a value, or
  \<open>Indeterminate\<close> after a store whose conversion from \<^verbatim>\<open>float\<close> C leaves undefined (the
  integral part does not fit \<^verbatim>\<open>int16_t\<close>). The zero of the type is the stored value 0.
\<close>

datatype stored_int16 = Stored int16_t | Indeterminate

instantiation stored_int16 :: zero
begin

definition zero_stored_int16 :: stored_int16 where
  "zero_stored_int16 = Stored 0"

instance ..

end

definition AK8963_MAG_I2C_ADDRESS :: uint8_t where "AK8963_MAG_I2C_ADDRESS = 0x0C"
definition AK8963_Device_ID :: uint8_t where "AK8963_Device_ID = 0x48"

definition AK8963_MAG_REG_WHO_AM_I :: uint8_t where "AK8963_MAG_REG_WHO_AM_I = 0x00"
definition AK8963_MAG_REG_STATUS1 :: uint8_t where "AK8963_MAG_REG_STATUS1 = 0x02"
definition AK8963_MAG_REG_HXL :: uint8_t where "AK8963_MAG_REG_HXL = 0x03"
definition AK8963_MAG_REG_STATUS2 :: uint8_t where "AK8963_MAG_REG_STATUS2 = 0x09"
definition AK8963_MAG_REG_CNTL :: uint8_t where "AK8963_MAG_REG_CNTL = 0x0a"
definition AK8963_MAG_REG_ASAX :: uint8_t where "AK8963_MAG_REG_ASAX = 0x10"

definition READ_FLAG :: uint8_t where "READ_FLAG = 0x80"

definition STATUS1_DATA_READY :: uint8_t where "STATUS1_DATA_READY = 0x01"
definition STATUS1_DATA_OVERRUN :: uint8_t where "STATUS1_DATA_OVERRUN = 0x02"

definition STATUS2_DATA_ERROR :: uint8_t where "STATUS2_DATA_ERROR = 0x02"
definition STATUS2_MAG_SENSOR_OVERFLOW :: uint8_t where "STATUS2_MAG_SENSOR_OVERFLOW = 0x03"

definition CNTL_MODE_POWER_DOWN :: uint8_t where "CNTL_MODE_POWER_DOWN = 0x00"
definition CNTL_MODE_ONCE :: uint8_t where "CNTL_MODE_ONCE = 0x01"
definition CNTL_MODE_CONT1 :: uint8_t where "CNTL_MODE_CONT1 = 0x02"
definition CNTL_MODE_FUSE_ROM :: uint8_t where "CNTL_MODE_FUSE_ROM = 0x0F"

text \<open>
  Modelled from the spec: the axis indices of \<^verbatim>\<open>common/axis.h\<close>, which is not among the
  sources. The spec orders the axes X, Y, Z; the indices are 0, 1, 2.
\<close>

definition X :: nat where "X = 0"
definition Y :: nat where "Y = 1"
definition Z :: nat where "Z = 2"

text \<open>
  Modelled from the spec: the MPU registers of the pass-through master, declared in
  \<^verbatim>\<open>accgyro_mpu.h\<close>, which is not among the sources. Only their identity matters here, so
  they are names.
\<close>

datatype mpu_reg =
    MPU_RA_I2C_SLV0_ADDR
  | MPU_RA_I2C_SLV0_REG
  | MPU_RA_I2C_SLV0_CTRL
  | MPU_RA_EXT_SENS_DATA_00

subsection \<open>Driver state\<close>

record queuedReadState_t =
  waiting :: bool
  len :: uint8_t
  readStartedAt :: uint32_t

text \<open>
  \<^verbatim>\<open>ak8963ReadState_e\<close> is a C enumeration and the code increments it (\<^verbatim>\<open>state++\<close>), so it
  is a number with three named values; a \<^verbatim>\<open>switch\<close> on any other value matches no case.
\<close>

type_synonym ak8963ReadState_e = nat

definition CHECK_STATUS :: ak8963ReadState_e where "CHECK_STATUS = 0"
definition WAITING_FOR_STATUS :: ak8963ReadState_e where "WAITING_FOR_STATUS = 1"
definition WAITING_FOR_DATA :: ak8963ReadState_e where "WAITING_FOR_DATA = 2"

text \<open>
  What the driver does to the outside world, in order. \<open>RegRead\<close> carries the value that
  \<^verbatim>\<open>queuedRead.waiting\<close> has at the moment the receive buffer is filled, and \<open>Switch\<close> marks
  one evaluation of \<^verbatim>\<open>switch (state)\<close> in the queued reader: both are observations only
  and no function of the model reads them back.
\<close>

datatype event =
    RegWrite mpu_reg uint8_t
  | RegRead mpu_reg uint8_t bool
  | DelayMicroseconds uint32_t
  | Delay nat
  | ConfigRead uint8_t uint8_t uint8_t
  | ConfigWrite uint8_t uint8_t uint8_t
  | Switch ak8963ReadState_e

record 'b driver =
  magGain :: "nat \<Rightarrow> rat"
  queuedRead :: queuedReadState_t
  state :: ak8963ReadState_e
  bus :: 'b
  clock_calls :: nat
  sens_reads :: nat
  trace :: "event list"

text \<open>
  \<^verbatim>\<open>static float magGain[3] = { 1.0f, 1.0f, 1.0f }\<close>,
  \<^verbatim>\<open>static queuedReadState_t queuedRead = { false, 0, 0}\<close> and
  \<^verbatim>\<open>static ak8963ReadState_e state = CHECK_STATUS\<close>.
\<close>

definition initial_driver :: "'b \<Rightarrow> 'b driver" where
  "initial_driver b =
     \<lparr> magGain = (\<lambda>_. 1),
       queuedRead = \<lparr> waiting = False, len = 0, readStartedAt = 0 \<rparr>,
       state = CHECK_STATUS,
       bus = b, clock_calls = 0, sens_reads = 0, trace = [] \<rparr>"

subsection \<open>The hardware the driver calls\<close>

text \<open>
  Modelled from the spec: \<^verbatim>\<open>micros\<close>, \<^verbatim>\<open>delay\<close>, \<^verbatim>\<open>delayMicroseconds\<close> and the MPU register
  accessors are external collaborators (spec section 6) whose code is not among the
  sources. The clock and the sensor data are oracles: \<open>micros_at e k\<close> is what the
  \<open>k\<close>-th call of \<^verbatim>\<open>micros()\<close> returns, \<open>sens_at e k i\<close> is byte \<open>i\<close> of what the \<open>k\<close>-th
  read of the external sensor data registers delivers. They are arbitrary, so nothing is
  assumed about how time passes or what the sensor answers.
\<close>

record env =
  micros_at :: "nat \<Rightarrow> uint32_t"
  sens_at :: "nat \<Rightarrow> nat \<Rightarrow> uint8_t"

definition micros :: "env \<Rightarrow> 'b driver \<Rightarrow> uint32_t \<times> 'b driver" where
  "micros e s = (micros_at e (clock_calls s), s\<lparr>clock_calls := Suc (clock_calls s)\<rparr>)"

definition delayMicroseconds :: "uint32_t \<Rightarrow> 'b driver \<Rightarrow> 'b driver" where
  "delayMicroseconds us s = s\<lparr>trace := trace s @ [DelayMicroseconds us]\<rparr>"

definition delay :: "nat \<Rightarrow> 'b driver \<Rightarrow> 'b driver" where
  "delay ms s = s\<lparr>trace := trace s @ [Delay ms]\<rparr>"

text \<open>The driver discards what \<^verbatim>\<open>verifympu9250WriteRegister\<close> returns.\<close>

definition verifympu9250WriteRegister :: "mpu_reg \<Rightarrow> uint8_t \<Rightarrow> 'b driver \<Rightarrow> 'b driver" where
  "verifympu9250WriteRegister r v s = s\<lparr>trace := trace s @ [RegWrite r v]\<rparr>"

text \<open>\<^verbatim>\<open>mpu9250ReadRegister(reg, length, buf)\<close> overwrites the first \<open>length\<close> bytes of
  \<open>buf\<close>.\<close>

definition mpu9250ReadRegister ::
  "env \<Rightarrow> mpu_reg \<Rightarrow> uint8_t \<Rightarrow> bytes \<Rightarrow> 'b driver \<Rightarrow> bytes \<times> 'b driver" where
  "mpu9250ReadRegister e r n buf s =
     ((\<lambda>i. if i < unat n then sens_at e (sens_reads s) i else buf i),
      s\<lparr>sens_reads := Suc (sens_reads s),
        trace := trace s @ [RegRead r n (waiting (queuedRead s))]\<rparr>)"

text \<open>
  \<^verbatim>\<open>ak8963Configuration_t\<close>: the two function pointers bound at detection. A transport
  has a state of its own (type \<open>'b\<close>); \<open>cfg_read\<close> (the field \<^verbatim>\<open>read\<close>) gets the
  caller's buffer and returns the acknowledgment, the buffer as it leaves it, and its
  new state. \<open>ak8963config_read\<close> and \<open>ak8963config_write\<close> are the calls through
  \<^verbatim>\<open>ak8963config\<close>; they record the transaction.
\<close>

record 'b ak8963Configuration_t =
  cfg_read :: "uint8_t \<Rightarrow> uint8_t \<Rightarrow> uint8_t \<Rightarrow> bytes \<Rightarrow> 'b \<Rightarrow> bool \<times> bytes \<times> 'b"
  cfg_write :: "uint8_t \<Rightarrow> uint8_t \<Rightarrow> uint8_t \<Rightarrow> 'b \<Rightarrow> bool \<times> 'b"

definition ak8963config_read ::
  "'b ak8963Configuration_t \<Rightarrow> uint8_t \<Rightarrow> uint8_t \<Rightarrow> uint8_t \<Rightarrow> bytes \<Rightarrow> 'b driver
     \<Rightarrow> bool \<times> bytes \<times> 'b driver" where
  "ak8963config_read cfg a r n buf s =
     (case cfg_read cfg a r n buf (bus s) of
        (ack, buf', b') \<Rightarrow> (ack, buf', s\<lparr>bus := b', trace := trace s @ [ConfigRead a r n]\<rparr>))"

definition ak8963config_write ::
  "'b ak8963Configuration_t \<Rightarrow> uint8_t \<Rightarrow> uint8_t \<Rightarrow> uint8_t \<Rightarrow> 'b driver \<Rightarrow> bool \<times> 'b driver" where
  "ak8963config_write cfg a r d s =
     (case cfg_write cfg a r d (bus s) of
        (ack, b') \<Rightarrow> (ack, s\<lparr>bus := b', trace := trace s @ [ConfigWrite a r d]\<rparr>))"

subsection \<open>The queued read (SPRACINGF3EVO)\<close>

definition ak8963SPIStartRead ::
  "env \<Rightarrow> uint8_t \<Rightarrow> uint8_t \<Rightarrow> uint8_t \<Rightarrow> 'b driver \<Rightarrow> bool \<times> 'b driver" where
  "ak8963SPIStartRead e addr reg count s =
     (if waiting (queuedRead s) then (False, s)
      else
        let s1 = s\<lparr>queuedRead := (queuedRead s)\<lparr>len := count\<rparr>\<rparr>;
            s2 = verifympu9250WriteRegister MPU_RA_I2C_SLV0_ADDR (addr OR READ_FLAG) s1;
            s3 = verifympu9250WriteRegister MPU_RA_I2C_SLV0_REG reg s2;
            s4 = verifympu9250WriteRegister MPU_RA_I2C_SLV0_CTRL (count OR 0x80) s3;
            (t, s5) = micros e s4;
            s6 = s5\<lparr>queuedRead := (queuedRead s5)\<lparr>readStartedAt := t\<rparr>\<rparr>;
            s7 = s6\<lparr>queuedRead := (queuedRead s6)\<lparr>waiting := True\<rparr>\<rparr>
        in (True, s7))"

text \<open>
  \<^verbatim>\<open>int32_t timeSinceStarted = micros() - queuedRead.readStartedAt\<close> subtracts modulo
  \<open>2^32\<close> and reads the difference as two's complement; \<^verbatim>\<open>8000 - timeSinceStarted\<close> is
  \<^verbatim>\<open>int32_t\<close> arithmetic, written here with the wrap-around of the target (in C the
  overflow is undefined; it needs \<open>timeSinceStarted < 8001 - 2^31\<close>).
\<close>

definition ak8963SPIQueuedReadTimeRemaining :: "env \<Rightarrow> 'b driver \<Rightarrow> uint32_t \<times> 'b driver" where
  "ak8963SPIQueuedReadTimeRemaining e s =
     (if \<not> waiting (queuedRead s) then (0, s)
      else
        let (now, s1) = micros e s;
            timeSinceStarted = now - readStartedAt (queuedRead s1);
            timeRemaining = 8000 - timeSinceStarted
        in if sint timeRemaining < 0 then (0, s1) else (timeRemaining, s1))"

definition ak8963SPICompleteRead :: "env \<Rightarrow> bytes \<Rightarrow> 'b driver \<Rightarrow> bool \<times> bytes \<times> 'b driver" where
  "ak8963SPICompleteRead e buf s =
     (let (timeRemaining, s1) = ak8963SPIQueuedReadTimeRemaining e s;
          s2 = (if 0 < timeRemaining then delayMicroseconds timeRemaining s1 else s1);
          s3 = s2\<lparr>queuedRead := (queuedRead s2)\<lparr>waiting := False\<rparr>\<rparr>;
          (buf', s4) = mpu9250ReadRegister e MPU_RA_EXT_SENS_DATA_00 (len (queuedRead s3)) buf s3
      in (True, buf', s4))"

subsection \<open>Calibration\<close>

text \<open>
  \<^verbatim>\<open>(((((float)(int8_t)calibration[X] - 128) / 256) + 1) * 30)\<close>. The value is a
  rational number here. Every intermediate result of the C expression is \<open>m / 256\<close> for
  an integer \<open>m\<close> of magnitude below \<open>2^24\<close> (lemma \<open>gain_steps_exact\<close> below), so binary32
  arithmetic computes it without rounding and the rational is the float's value.
\<close>

definition calibration_gain :: "uint8_t \<Rightarrow> rat" where
  "calibration_gain c = (((of_int (sint c) - 128) / 256) + 1) * 30"

text \<open>
  \<^verbatim>\<open>ak8963Init\<close>. \<open>evo\<close> says whether \<^verbatim>\<open>SPRACINGF3EVO\<close> is defined; \<open>calibration0\<close> and
  \<open>status0\<close> are the uninitialised locals. No acknowledgment is looked at.
\<close>

definition ak8963Init ::
  "bool \<Rightarrow> 'b ak8963Configuration_t \<Rightarrow> bytes \<Rightarrow> bytes \<Rightarrow> 'b driver \<Rightarrow> 'b driver" where
  "ak8963Init evo cfg calibration0 status0 s =
     (let (ack, s) = ak8963config_write cfg AK8963_MAG_I2C_ADDRESS AK8963_MAG_REG_CNTL CNTL_MODE_POWER_DOWN s;
          s = delay 20 s;
          (ack, s) = ak8963config_write cfg AK8963_MAG_I2C_ADDRESS AK8963_MAG_REG_CNTL CNTL_MODE_FUSE_ROM s;
          s = delay 10 s;
          (ack, calibration, s) = ak8963config_read cfg AK8963_MAG_I2C_ADDRESS AK8963_MAG_REG_ASAX 3 calibration0 s;
          s = delay 10 s;
          s = s\<lparr>magGain := (magGain s)(X := calibration_gain (calibration X))\<rparr>;
          s = s\<lparr>magGain := (magGain s)(Y := calibration_gain (calibration Y))\<rparr>;
          s = s\<lparr>magGain := (magGain s)(Z := calibration_gain (calibration Z))\<rparr>;
          (ack, s) = ak8963config_write cfg AK8963_MAG_I2C_ADDRESS AK8963_MAG_REG_CNTL CNTL_MODE_POWER_DOWN s;
          s = delay 10 s;
          (ack, status, s) = ak8963config_read cfg AK8963_MAG_I2C_ADDRESS AK8963_MAG_REG_STATUS1 1 status0 s;
          (ack, status, s) = ak8963config_read cfg AK8963_MAG_I2C_ADDRESS AK8963_MAG_REG_STATUS2 1 status s;
          (ack, s) = ak8963config_write cfg AK8963_MAG_I2C_ADDRESS AK8963_MAG_REG_CNTL
                       (if evo then CNTL_MODE_CONT1 else CNTL_MODE_ONCE) s
      in s)"

subsection \<open>Decoding a sample\<close>

text \<open>
  \<^verbatim>\<open>-(int16_t)(buf[1] << 8 | buf[0])\<close>: the bytes are combined as \<^verbatim>\<open>int\<close>, narrowed to 16
  bits, read as two's complement and negated as \<^verbatim>\<open>int\<close> (so \<open>-32768\<close> becomes \<open>32768\<close>).
\<close>

definition axis_raw :: "uint8_t \<Rightarrow> uint8_t \<Rightarrow> int" where
  "axis_raw lo hi = - sint (ucast (push_bit 8 (ucast hi :: 32 word) OR ucast lo) :: int16_t)"

text \<open>
  \<^verbatim>\<open>magData[X] = -(int16_t)(...) * magGain[X]\<close> converts the \<^verbatim>\<open>int\<close> to \<^verbatim>\<open>float\<close> (exact,
  its magnitude is at most \<open>2^15\<close>), multiplies in \<^verbatim>\<open>float\<close>, which rounds the product to
  binary32 (to nearest, ties to even; the product is taken to be evaluated in the
  precision of its type), and converts the result to \<^verbatim>\<open>int16_t\<close>, which
  truncates towards zero and is undefined when the integral part is outside
  \<open>-32768 .. 32767\<close>.

  A \<^verbatim>\<open>float\<close> is modelled by the rational number it denotes, so every gain in
  \<open>magGain\<close> stands for a binary32 number (the initial 1.0 and what \<^verbatim>\<open>ak8963Init\<close> stores
  are). \<open>pow2 e\<close> is \<open>2^e\<close>; \<open>exponent_below 127 x\<close> is the binary32 exponent of a magnitude
  \<open>x\<close>: the largest \<open>e\<close> from 127 down to \<open>-126\<close> with \<open>2^e \<le> x\<close>, and \<open>-126\<close> for a
  subnormal or zero; a binary32 number with that exponent is a multiple of
  \<open>2^(e - 23)\<close>. A product of magnitude \<open>2^128\<close> or more, which binary32 rounds to an
  infinity, stays finite here: it is outside \<^verbatim>\<open>int16_t\<close> either way.
\<close>

definition pow2 :: "int \<Rightarrow> rat" where
  "pow2 e = (if 0 \<le> e then 2 ^ nat e else 1 / 2 ^ nat (- e))"

function exponent_below :: "int \<Rightarrow> rat \<Rightarrow> int" where
  "exponent_below e x = (if e \<le> - 126 \<or> pow2 e \<le> x then e else exponent_below (e - 1) x)"
  by pat_completeness auto
termination
  by (relation "measure (\<lambda>(e, x). nat (e + 126))") auto

definition round_half_even :: "rat \<Rightarrow> int" where
  "round_half_even k =
     (let f = \<lfloor>k\<rfloor>; d = k - of_int f
      in if d < 1 / 2 then f else if 1 / 2 < d then f + 1 else if even f then f else f + 1)"

definition round_binary32 :: "rat \<Rightarrow> rat" where
  "round_binary32 x =
     (let ulp = pow2 (exponent_below 127 \<bar>x\<bar> - 23)
      in of_int (round_half_even (x / ulp)) * ulp)"

definition float_to_int16 :: "rat \<Rightarrow> stored_int16" where
  "float_to_int16 x =
     (let t = (if 0 \<le> x then \<lfloor>x\<rfloor> else \<lceil>x\<rceil>)
      in if - 32768 \<le> t \<and> t \<le> 32767 then Stored (word_of_int t) else Indeterminate)"

definition decode ::
  "bytes \<Rightarrow> (nat \<Rightarrow> rat) \<Rightarrow> (nat \<Rightarrow> stored_int16) \<Rightarrow> (nat \<Rightarrow> stored_int16)" where
  "decode buf gain magData =
     (let magData = magData(X := float_to_int16 (round_binary32 (of_int (axis_raw (buf 0) (buf 1)) * gain X)));
          magData = magData(Y := float_to_int16 (round_binary32 (of_int (axis_raw (buf 2) (buf 3)) * gain Y)));
          magData = magData(Z := float_to_int16 (round_binary32 (of_int (axis_raw (buf 4) (buf 5)) * gain Z)))
      in magData)"

subsection \<open>The reader, queued (SPRACINGF3EVO)\<close>

text \<open>
  The body of \<^verbatim>\<open>ak8963Read\<close> from the label \<^verbatim>\<open>restart\<close> on, with the local \<^verbatim>\<open>retry\<close> as an
  argument; \<^verbatim>\<open>goto restart\<close> is the recursive call. The result is the returned flag, the
  caller's \<^verbatim>\<open>magData\<close> and the driver state.
\<close>

function ak8963Read_restart ::
  "env \<Rightarrow> bool \<Rightarrow> bytes \<Rightarrow> (nat \<Rightarrow> stored_int16) \<Rightarrow> 'b driver
     \<Rightarrow> bool \<times> (nat \<Rightarrow> stored_int16) \<times> 'b driver" where
  "ak8963Read_restart e retry buf magData s0 =
     (let s = s0\<lparr>trace := trace s0 @ [Switch (state s0)]\<rparr> in
      if state s = CHECK_STATUS then
        (let (started, s) = ak8963SPIStartRead e AK8963_MAG_I2C_ADDRESS AK8963_MAG_REG_STATUS1 1 s;
             s = s\<lparr>state := state s + 1\<rparr>
         in (False, magData, s))
      else if state s = WAITING_FOR_STATUS then
        (let (timeRemaining, s) = ak8963SPIQueuedReadTimeRemaining e s in
         if timeRemaining \<noteq> 0 then (False, magData, s)
         else
           let (ack, buf, s) = ak8963SPICompleteRead e buf s;
               status = buf 0
           in
           if \<not> ack \<or> (status AND STATUS1_DATA_READY = 0 \<and> status AND STATUS1_DATA_OVERRUN = 0) then
             (let s = s\<lparr>state := CHECK_STATUS\<rparr> in
              if retry then ak8963Read_restart e False buf magData s
              else (False, magData, s))
           else
             let (started, s) = ak8963SPIStartRead e AK8963_MAG_I2C_ADDRESS AK8963_MAG_REG_HXL 7 s;
                 s = s\<lparr>state := state s + 1\<rparr>
             in (False, magData, s))
      else if state s = WAITING_FOR_DATA then
        (let (timeRemaining, s) = ak8963SPIQueuedReadTimeRemaining e s in
         if timeRemaining \<noteq> 0 then (False, magData, s)
         else
           let (ack, buf, s) = ak8963SPICompleteRead e buf s;
               status2 = buf 6
           in
           if \<not> ack \<or> status2 AND STATUS2_DATA_ERROR \<noteq> 0 \<or> status2 AND STATUS2_MAG_SENSOR_OVERFLOW \<noteq> 0 then
             (False, magData, s)
           else
             let magData = decode buf (magGain s) magData;
                 s = s\<lparr>state := CHECK_STATUS\<rparr>
             in (True, magData, s))
      else (False, magData, s))"
  by pat_completeness auto
termination
  by (relation "measure (\<lambda>(e, retry, buf, magData, s). if retry then 1 else 0)") auto

text \<open>\<^verbatim>\<open>ak8963Read\<close> with \<^verbatim>\<open>SPRACINGF3EVO\<close> defined: \<^verbatim>\<open>bool retry = true\<close>, then the
  body. \<open>buf0\<close> is the uninitialised \<^verbatim>\<open>buf[7]\<close>.\<close>

definition ak8963Read_evo ::
  "env \<Rightarrow> bytes \<Rightarrow> (nat \<Rightarrow> stored_int16) \<Rightarrow> 'b driver \<Rightarrow> bool \<times> (nat \<Rightarrow> stored_int16) \<times> 'b driver" where
  "ak8963Read_evo e buf0 magData s = ak8963Read_restart e True buf0 magData s"

subsection \<open>The reader, synchronous (any other target)\<close>

definition ak8963Read_sync ::
  "'b ak8963Configuration_t \<Rightarrow> bytes \<Rightarrow> (nat \<Rightarrow> stored_int16) \<Rightarrow> 'b driver
     \<Rightarrow> bool \<times> (nat \<Rightarrow> stored_int16) \<times> 'b driver" where
  "ak8963Read_sync cfg buf0 magData s =
     (let (ack, buf, s) = ak8963config_read cfg AK8963_MAG_I2C_ADDRESS AK8963_MAG_REG_STATUS1 1 buf0 s;
          status = buf 0
      in
      if \<not> ack \<or> status AND STATUS1_DATA_READY = 0 then (False, magData, s)
      else
        let (ack, buf, s) = ak8963config_read cfg AK8963_MAG_I2C_ADDRESS AK8963_MAG_REG_HXL 7 buf s;
            status2 = buf 6
        in
        if \<not> ack \<or> status2 AND STATUS2_DATA_ERROR \<noteq> 0 \<or> status2 AND STATUS2_MAG_SENSOR_OVERFLOW \<noteq> 0 then
          (False, magData, s)
        else
          let magData = decode buf (magGain s) magData;
              (ack, s) = ak8963config_write cfg AK8963_MAG_I2C_ADDRESS AK8963_MAG_REG_CNTL CNTL_MODE_ONCE s
          in (ack, magData, s))"

subsection \<open>A transport for concrete runs\<close>

text \<open>
  A device that is a fixed register file: a read of \<open>n\<close> bytes at register \<open>r\<close> delivers
  the registers \<open>r, r + 1, ...\<close> and is acknowledged with \<open>rack\<close>, a write changes nothing
  and is acknowledged with \<open>wack\<close>. It is used to run the model on concrete inputs.
\<close>

definition register_file ::
  "(uint8_t \<Rightarrow> uint8_t) \<Rightarrow> bool \<Rightarrow> bool \<Rightarrow> unit ak8963Configuration_t" where
  "register_file regs rack wack =
     \<lparr> cfg_read = (\<lambda>a r n buf b. (rack, (\<lambda>i. if i < unat n then regs (r + of_nat i) else buf i), b)),
       cfg_write = (\<lambda>a r d b. (wack, b)) \<rparr>"

subsection \<open>Notions used to state the properties\<close>

text \<open>The driver state right after \<^verbatim>\<open>switch (state)\<close> has been evaluated.\<close>

definition dispatched :: "'b driver \<Rightarrow> 'b driver" where
  "dispatched s = s\<lparr>trace := trace s @ [Switch (state s)]\<rparr>"

text \<open>
  The driver state in which a case of the queued reader continues after its time check
  and \<^verbatim>\<open>ak8963SPICompleteRead\<close>.
\<close>

definition completed :: "env \<Rightarrow> bytes \<Rightarrow> 'b driver \<Rightarrow> 'b driver" where
  "completed e buf s =
     snd (snd (ak8963SPICompleteRead e buf (snd (ak8963SPIQueuedReadTimeRemaining e (dispatched s)))))"

text \<open>The driver state of \<^verbatim>\<open>ak8963Init\<close> when it reads the calibration bytes: after the
  power-down and fuse-ROM writes and their delays.\<close>

definition fuse_rom_entered :: "'b ak8963Configuration_t \<Rightarrow> 'b driver \<Rightarrow> 'b driver" where
  "fuse_rom_entered cfg s =
     delay 10 (snd (ak8963config_write cfg AK8963_MAG_I2C_ADDRESS AK8963_MAG_REG_CNTL CNTL_MODE_FUSE_ROM
       (delay 20 (snd (ak8963config_write cfg AK8963_MAG_I2C_ADDRESS AK8963_MAG_REG_CNTL
          CNTL_MODE_POWER_DOWN s)))))"

text \<open>The events that a call added to the trace.\<close>

definition new_events :: "'b driver \<Rightarrow> 'b driver \<Rightarrow> event list" where
  "new_events s s' = drop (length (trace s)) (trace s')"

fun is_switch :: "event \<Rightarrow> bool" where
  "is_switch (Switch st) = True"
| "is_switch ev = False"

definition switches :: "event list \<Rightarrow> nat" where
  "switches evs = length (filter is_switch evs)"

text \<open>A receive buffer was filled while \<^verbatim>\<open>queuedRead.waiting\<close> was set.\<close>

fun fill_while_waiting :: "event \<Rightarrow> bool" where
  "fill_while_waiting (RegRead r n w) = w"
| "fill_while_waiting ev = False"

subsection \<open>Concrete inputs\<close>

text \<open>A clock that reads \<open>now\<close> at every call and a sensor that delivers \<open>data\<close> at
  every read.\<close>

definition steady_env :: "uint32_t \<Rightarrow> bytes \<Rightarrow> env" where
  "steady_env now data = \<lparr> micros_at = (\<lambda>k. now), sens_at = (\<lambda>k. data) \<rparr>"

text \<open>A clock that advances by 10000 microseconds from one reading to the next, with the
  same sensor; and three successive invocations of the queued reader from the initial
  driver state under it: the returned flags and the protocol state after each.\<close>

definition ticking_env :: "bytes \<Rightarrow> env" where
  "ticking_env data = \<lparr> micros_at = (\<lambda>k. 10000 * of_nat k), sens_at = (\<lambda>k. data) \<rparr>"

definition three_ticks :: "bytes \<Rightarrow> bool list \<times> ak8963ReadState_e list" where
  "three_ticks data =
    (let e = ticking_env data;
         (r1, m1, s1) = ak8963Read_evo e (\<lambda>i. 0) (\<lambda>i. 0) (initial_driver ());
         (r2, m2, s2) = ak8963Read_evo e (\<lambda>i. 0) m1 s1;
         (r3, m3, s3) = ak8963Read_evo e (\<lambda>i. 0) m2 s2
     in ([r1, r2, r3], [state s1, state s2, state s3]))"

text \<open>The initial driver moved to protocol state \<open>st\<close> with the queued read \<open>q\<close>.\<close>

definition driver_in :: "ak8963ReadState_e \<Rightarrow> queuedReadState_t \<Rightarrow> unit driver" where
  "driver_in st q = (initial_driver ())\<lparr>queuedRead := q, state := st\<rparr>"

text \<open>A 7-byte sample with all data bytes zero and the given trailing status byte, and a
  buffer of zeros.\<close>

definition sample_with_status2 :: "uint8_t \<Rightarrow> bytes" where
  "sample_with_status2 st2 = (\<lambda>i. if i = 6 then st2 else 0)"

definition zeros :: "nat \<Rightarrow> 'a::zero" where
  "zeros = (\<lambda>i. 0)"

text \<open>Registers of a device whose status-1 register holds \<open>st1\<close>, whose status-2 register
  holds \<open>st2\<close>, and whose other registers hold \<open>other\<close>.\<close>

definition device_regs :: "uint8_t \<Rightarrow> uint8_t \<Rightarrow> uint8_t \<Rightarrow> uint8_t \<Rightarrow> uint8_t" where
  "device_regs st1 st2 other =
     (\<lambda>r. if r = AK8963_MAG_REG_STATUS1 then st1
          else if r = AK8963_MAG_REG_STATUS2 then st2 else other)"

section \<open>Properties\<close>

lemmas register_defs =
  AK8963_MAG_I2C_ADDRESS_def AK8963_Device_ID_def AK8963_MAG_REG_WHO_AM_I_def
  AK8963_MAG_REG_STATUS1_def AK8963_MAG_REG_HXL_def AK8963_MAG_REG_STATUS2_def
  AK8963_MAG_REG_CNTL_def AK8963_MAG_REG_ASAX_def READ_FLAG_def
  STATUS1_DATA_READY_def STATUS1_DATA_OVERRUN_def STATUS2_DATA_ERROR_def
  STATUS2_MAG_SENSOR_OVERFLOW_def CNTL_MODE_POWER_DOWN_def CNTL_MODE_ONCE_def
  CNTL_MODE_CONT1_def CNTL_MODE_FUSE_ROM_def

lemmas state_defs = CHECK_STATUS_def WAITING_FOR_STATUS_def WAITING_FOR_DATA_def

lemmas axis_defs = X_def Y_def Z_def

subsection \<open>Supporting lemmas: the queued read primitives\<close>

declare ak8963Read_restart.simps [simp del]

declare exponent_below.simps [simp del]

lemma TR_snd: "snd (ak8963SPIQueuedReadTimeRemaining e s) =
   s\<lparr>clock_calls := (if waiting (queuedRead s) then Suc (clock_calls s) else clock_calls s)\<rparr>"
  by (simp add: ak8963SPIQueuedReadTimeRemaining_def micros_def Let_def)

lemma TR_fst_trace: "fst (ak8963SPIQueuedReadTimeRemaining e (s\<lparr>trace := t\<rparr>)) = fst (ak8963SPIQueuedReadTimeRemaining e s)"
  by (simp add: ak8963SPIQueuedReadTimeRemaining_def micros_def Let_def)

lemma CR_fst: "fst (ak8963SPICompleteRead e buf s) = True"
  by (simp add: ak8963SPICompleteRead_def Let_def split_beta)

lemma CR_buf: "fst (snd (ak8963SPICompleteRead e buf s)) =
   (\<lambda>i. if i < unat (len (queuedRead s)) then sens_at e (sens_reads s) i else buf i)"
  by (simp add: ak8963SPICompleteRead_def Let_def split_beta mpu9250ReadRegister_def TR_snd delayMicroseconds_def cong: if_cong)

lemma CR_state: "snd (snd (ak8963SPICompleteRead e buf s)) =
   s\<lparr>clock_calls := (if waiting (queuedRead s) then Suc (clock_calls s) else clock_calls s),
      queuedRead := (queuedRead s)\<lparr>waiting := False\<rparr>,
      sens_reads := Suc (sens_reads s),
      trace := trace s @ (if 0 < fst (ak8963SPIQueuedReadTimeRemaining e s)
                          then [DelayMicroseconds (fst (ak8963SPIQueuedReadTimeRemaining e s))] else [])
                 @ [RegRead MPU_RA_EXT_SENS_DATA_00 (len (queuedRead s)) False]\<rparr>"
  by (simp add: ak8963SPICompleteRead_def Let_def split_beta mpu9250ReadRegister_def TR_snd delayMicroseconds_def cong: if_cong)

lemma SR_snd: "snd (ak8963SPIStartRead e a r n s) =
  (if waiting (queuedRead s) then s else
   s\<lparr>queuedRead := \<lparr>waiting = True, len = n, readStartedAt = micros_at e (clock_calls s)\<rparr>,
     clock_calls := Suc (clock_calls s),
     trace := trace s @ [RegWrite MPU_RA_I2C_SLV0_ADDR (a OR READ_FLAG), RegWrite MPU_RA_I2C_SLV0_REG r,
                         RegWrite MPU_RA_I2C_SLV0_CTRL (n OR 0x80)]\<rparr>)"
  by (simp add: ak8963SPIStartRead_def Let_def split_beta verifympu9250WriteRegister_def micros_def)


lemma SR_state [simp]: "state (snd (ak8963SPIStartRead e a r n s)) = state s"
  by (simp add: SR_snd)

lemma SR_gain [simp]: "magGain (snd (ak8963SPIStartRead e a r n s)) = magGain s"
  by (simp add: SR_snd)

lemma TR_state [simp]: "state (snd (ak8963SPIQueuedReadTimeRemaining e s)) = state s"
  by (simp add: TR_snd)

lemma CR_state_field [simp]: "state (snd (snd (ak8963SPICompleteRead e buf s))) = state s"
  by (simp add: CR_state)

lemma dispatched_simps [simp]:
  "state (dispatched s) = state s" "queuedRead (dispatched s) = queuedRead s"
  "magGain (dispatched s) = magGain s" "sens_reads (dispatched s) = sens_reads s"
  "clock_calls (dispatched s) = clock_calls s"
  "trace (dispatched s) = trace s @ [Switch (state s)]"
  by (simp_all add: dispatched_def)

lemma TR_fst_dispatched [simp]:
  "fst (ak8963SPIQueuedReadTimeRemaining e (dispatched s)) = fst (ak8963SPIQueuedReadTimeRemaining e s)"
  by (simp add: dispatched_def TR_fst_trace)


lemma CR_buf_dispatched [simp]:
  "fst (snd (ak8963SPICompleteRead e buf (snd (ak8963SPIQueuedReadTimeRemaining e (dispatched s))))) =
   fst (snd (ak8963SPICompleteRead e buf s))"
  by (simp add: CR_buf TR_snd cong: if_cong)

lemma completed_fields [simp]:
  "state (completed e buf s) = state s"
  "magGain (completed e buf s) = magGain s"
  "waiting (queuedRead (completed e buf s)) = False"
  "len (queuedRead (completed e buf s)) = len (queuedRead s)"
  by (simp_all add: completed_def CR_state TR_snd)

lemma restart_check_status:
  "state s = CHECK_STATUS \<Longrightarrow>
   ak8963Read_restart e retry buf md s =
     (False, md,
      (snd (ak8963SPIStartRead e AK8963_MAG_I2C_ADDRESS AK8963_MAG_REG_STATUS1 1 (dispatched s)))
        \<lparr>state := WAITING_FOR_STATUS\<rparr>)"
  by (subst ak8963Read_restart.simps) (simp add: Let_def split_beta state_defs dispatched_def)

lemma restart_gated:
  "state s = WAITING_FOR_STATUS \<or> state s = WAITING_FOR_DATA \<Longrightarrow>
   fst (ak8963SPIQueuedReadTimeRemaining e s) \<noteq> 0 \<Longrightarrow>
   ak8963Read_restart e retry buf md s =
     (False, md, snd (ak8963SPIQueuedReadTimeRemaining e (dispatched s)))"
  by (subst ak8963Read_restart.simps) (auto simp add: Let_def split_beta state_defs dispatched_def TR_fst_trace)

lemma restart_status_miss:
  "state s = WAITING_FOR_STATUS \<Longrightarrow>
   fst (ak8963SPIQueuedReadTimeRemaining e s) = 0 \<Longrightarrow>
   fst (snd (ak8963SPICompleteRead e buf s)) 0 AND STATUS1_DATA_READY = 0 \<Longrightarrow>
   fst (snd (ak8963SPICompleteRead e buf s)) 0 AND STATUS1_DATA_OVERRUN = 0 \<Longrightarrow>
   ak8963Read_restart e retry buf md s =
     (if retry
      then ak8963Read_restart e False (fst (snd (ak8963SPICompleteRead e buf s))) md
             ((completed e buf s)\<lparr>state := CHECK_STATUS\<rparr>)
      else (False, md, (completed e buf s)\<lparr>state := CHECK_STATUS\<rparr>))"
  using CR_buf_dispatched [of e buf s, unfolded dispatched_def]
  by (subst ak8963Read_restart.simps)
     (simp add: Let_def split_beta state_defs completed_def dispatched_def TR_fst_trace CR_fst del: CR_buf_dispatched)

lemma restart_status_hit:
  "state s = WAITING_FOR_STATUS \<Longrightarrow>
   fst (ak8963SPIQueuedReadTimeRemaining e s) = 0 \<Longrightarrow>
   fst (snd (ak8963SPICompleteRead e buf s)) 0 AND STATUS1_DATA_READY \<noteq> 0 \<or>
   fst (snd (ak8963SPICompleteRead e buf s)) 0 AND STATUS1_DATA_OVERRUN \<noteq> 0 \<Longrightarrow>
   ak8963Read_restart e retry buf md s =
     (False, md,
      (snd (ak8963SPIStartRead e AK8963_MAG_I2C_ADDRESS AK8963_MAG_REG_HXL 7 (completed e buf s)))
        \<lparr>state := WAITING_FOR_DATA\<rparr>)"
  using CR_buf_dispatched [of e buf s, unfolded dispatched_def]
  by (subst ak8963Read_restart.simps)
     (auto simp add: Let_def split_beta state_defs completed_def dispatched_def TR_fst_trace CR_fst simp del: CR_buf_dispatched)

lemma restart_data_bad:
  "state s = WAITING_FOR_DATA \<Longrightarrow>
   fst (ak8963SPIQueuedReadTimeRemaining e s) = 0 \<Longrightarrow>
   fst (snd (ak8963SPICompleteRead e buf s)) 6 AND STATUS2_DATA_ERROR \<noteq> 0 \<or>
   fst (snd (ak8963SPICompleteRead e buf s)) 6 AND STATUS2_MAG_SENSOR_OVERFLOW \<noteq> 0 \<Longrightarrow>
   ak8963Read_restart e retry buf md s = (False, md, completed e buf s)"
  using CR_buf_dispatched [of e buf s, unfolded dispatched_def]
  by (subst ak8963Read_restart.simps)
     (auto simp add: Let_def split_beta state_defs completed_def dispatched_def TR_fst_trace simp del: CR_buf_dispatched)

lemma restart_data_ok:
  "state s = WAITING_FOR_DATA \<Longrightarrow>
   fst (ak8963SPIQueuedReadTimeRemaining e s) = 0 \<Longrightarrow>
   fst (snd (ak8963SPICompleteRead e buf s)) 6 AND STATUS2_DATA_ERROR = 0 \<Longrightarrow>
   fst (snd (ak8963SPICompleteRead e buf s)) 6 AND STATUS2_MAG_SENSOR_OVERFLOW = 0 \<Longrightarrow>
   ak8963Read_restart e retry buf md s =
     (True, decode (fst (snd (ak8963SPICompleteRead e buf s))) (magGain s) md,
      (completed e buf s)\<lparr>state := CHECK_STATUS\<rparr>)"
  using CR_buf_dispatched [of e buf s, unfolded dispatched_def] completed_fields(2) [of e buf s, unfolded completed_def dispatched_def]
  by (subst ak8963Read_restart.simps)
     (auto simp add: Let_def split_beta state_defs completed_def dispatched_def TR_fst_trace CR_fst simp del: CR_buf_dispatched completed_fields)

lemma restart_other:
  "state s \<noteq> CHECK_STATUS \<Longrightarrow> state s \<noteq> WAITING_FOR_STATUS \<Longrightarrow> state s \<noteq> WAITING_FOR_DATA \<Longrightarrow>
   ak8963Read_restart e retry buf md s = (False, md, dispatched s)"
  by (subst ak8963Read_restart.simps) (simp add: Let_def dispatched_def)


lemma completed_trace_eq:
  "trace (completed e buf s) =
     trace s @ Switch (state s) #
       (if 0 < fst (ak8963SPIQueuedReadTimeRemaining e (snd (ak8963SPIQueuedReadTimeRemaining e (dispatched s))))
        then [DelayMicroseconds (fst (ak8963SPIQueuedReadTimeRemaining e (snd (ak8963SPIQueuedReadTimeRemaining e (dispatched s)))))]
        else []) @ [RegRead MPU_RA_EXT_SENS_DATA_00 (len (queuedRead s)) False]"
  by (simp add: completed_def CR_state TR_snd)

lemma SR_trace:
  "trace (snd (ak8963SPIStartRead e a r n s)) =
     trace s @ (if waiting (queuedRead s) then []
                else [RegWrite MPU_RA_I2C_SLV0_ADDR (a OR READ_FLAG), RegWrite MPU_RA_I2C_SLV0_REG r,
                      RegWrite MPU_RA_I2C_SLV0_CTRL (n OR 0x80)])"
  by (simp add: SR_snd)

lemma SR_waiting [simp]: "waiting (queuedRead (snd (ak8963SPIStartRead e a r n s)))"
  by (simp add: SR_snd)

lemma TR_trace [simp]: "trace (snd (ak8963SPIQueuedReadTimeRemaining e s)) = trace s"
  by (simp add: TR_snd)

lemma restart_False_trace:
  "take (length (trace s)) (trace (snd (snd (ak8963Read_restart e False buf md s)))) = trace s
   \<and> filter is_switch (new_events s (snd (snd (ak8963Read_restart e False buf md s)))) = [Switch (state s)]
   \<and> \<not> list_ex fill_while_waiting (new_events s (snd (snd (ak8963Read_restart e False buf md s))))"
proof -
  consider (check) "state s = CHECK_STATUS"
    | (gated) "state s = WAITING_FOR_STATUS \<or> state s = WAITING_FOR_DATA"
        "fst (ak8963SPIQueuedReadTimeRemaining e s) \<noteq> 0"
    | (miss) "state s = WAITING_FOR_STATUS" "fst (ak8963SPIQueuedReadTimeRemaining e s) = 0"
        "fst (snd (ak8963SPICompleteRead e buf s)) 0 AND STATUS1_DATA_READY = 0"
        "fst (snd (ak8963SPICompleteRead e buf s)) 0 AND STATUS1_DATA_OVERRUN = 0"
    | (hit) "state s = WAITING_FOR_STATUS" "fst (ak8963SPIQueuedReadTimeRemaining e s) = 0"
        "fst (snd (ak8963SPICompleteRead e buf s)) 0 AND STATUS1_DATA_READY \<noteq> 0 \<or>
         fst (snd (ak8963SPICompleteRead e buf s)) 0 AND STATUS1_DATA_OVERRUN \<noteq> 0"
    | (bad) "state s = WAITING_FOR_DATA" "fst (ak8963SPIQueuedReadTimeRemaining e s) = 0"
        "fst (snd (ak8963SPICompleteRead e buf s)) 6 AND STATUS2_DATA_ERROR \<noteq> 0 \<or>
         fst (snd (ak8963SPICompleteRead e buf s)) 6 AND STATUS2_MAG_SENSOR_OVERFLOW \<noteq> 0"
    | (ok) "state s = WAITING_FOR_DATA" "fst (ak8963SPIQueuedReadTimeRemaining e s) = 0"
        "fst (snd (ak8963SPICompleteRead e buf s)) 6 AND STATUS2_DATA_ERROR = 0"
        "fst (snd (ak8963SPICompleteRead e buf s)) 6 AND STATUS2_MAG_SENSOR_OVERFLOW = 0"
    | (other) "state s \<noteq> CHECK_STATUS" "state s \<noteq> WAITING_FOR_STATUS" "state s \<noteq> WAITING_FOR_DATA"
    by blast
  then show ?thesis
  proof cases
    case check
    then show ?thesis by (simp add: restart_check_status SR_trace new_events_def)
  next
    case gated
    then show ?thesis by (auto simp add: restart_gated new_events_def)
  next
    case miss
    then show ?thesis by (simp add: restart_status_miss completed_trace_eq new_events_def)
  next
    case hit
    then show ?thesis by (simp add: restart_status_hit SR_trace completed_trace_eq new_events_def)
  next
    case bad
    then show ?thesis by (simp add: restart_data_bad completed_trace_eq new_events_def)
  next
    case ok
    then show ?thesis by (simp add: restart_data_ok completed_trace_eq new_events_def)
  next
    case other
    then show ?thesis by (simp add: restart_other new_events_def)
  qed
qed

subsection \<open>Supporting lemmas: the readers, the clock arithmetic and calibration\<close>

lemma restart_retry_irrelevant:
  assumes "\<not> (state s = WAITING_FOR_STATUS \<and> fst (ak8963SPIQueuedReadTimeRemaining e s) = 0
             \<and> fst (snd (ak8963SPICompleteRead e buf s)) 0 AND STATUS1_DATA_READY = 0
             \<and> fst (snd (ak8963SPICompleteRead e buf s)) 0 AND STATUS1_DATA_OVERRUN = 0)"
  shows "ak8963Read_restart e True buf md s = ak8963Read_restart e False buf md s"
proof -
  consider (check) "state s = CHECK_STATUS"
    | (gated) "state s = WAITING_FOR_STATUS \<or> state s = WAITING_FOR_DATA"
        "fst (ak8963SPIQueuedReadTimeRemaining e s) \<noteq> 0"
    | (hit) "state s = WAITING_FOR_STATUS" "fst (ak8963SPIQueuedReadTimeRemaining e s) = 0"
        "fst (snd (ak8963SPICompleteRead e buf s)) 0 AND STATUS1_DATA_READY \<noteq> 0 \<or>
         fst (snd (ak8963SPICompleteRead e buf s)) 0 AND STATUS1_DATA_OVERRUN \<noteq> 0"
    | (bad) "state s = WAITING_FOR_DATA" "fst (ak8963SPIQueuedReadTimeRemaining e s) = 0"
        "fst (snd (ak8963SPICompleteRead e buf s)) 6 AND STATUS2_DATA_ERROR \<noteq> 0 \<or>
         fst (snd (ak8963SPICompleteRead e buf s)) 6 AND STATUS2_MAG_SENSOR_OVERFLOW \<noteq> 0"
    | (ok) "state s = WAITING_FOR_DATA" "fst (ak8963SPIQueuedReadTimeRemaining e s) = 0"
        "fst (snd (ak8963SPICompleteRead e buf s)) 6 AND STATUS2_DATA_ERROR = 0"
        "fst (snd (ak8963SPICompleteRead e buf s)) 6 AND STATUS2_MAG_SENSOR_OVERFLOW = 0"
    | (other) "state s \<noteq> CHECK_STATUS" "state s \<noteq> WAITING_FOR_STATUS" "state s \<noteq> WAITING_FOR_DATA"
    using assms by blast
  then show ?thesis
  proof cases
    case check
    then show ?thesis by (simp add: restart_check_status)
  next
    case gated
    then show ?thesis by (simp add: restart_gated)
  next
    case hit
    then show ?thesis by (simp add: restart_status_hit)
  next
    case bad
    then show ?thesis by (simp add: restart_data_bad)
  next
    case ok
    then show ?thesis by (simp add: restart_data_ok)
  next
    case other
    then show ?thesis by (simp add: restart_other)
  qed
qed

lemma restart_status_miss_retry:
  assumes "state s = WAITING_FOR_STATUS" "fst (ak8963SPIQueuedReadTimeRemaining e s) = 0"
    "fst (snd (ak8963SPICompleteRead e buf s)) 0 AND STATUS1_DATA_READY = 0"
    "fst (snd (ak8963SPICompleteRead e buf s)) 0 AND STATUS1_DATA_OVERRUN = 0"
  shows "ak8963Read_restart e True buf md s =
     (False, md,
      (snd (ak8963SPIStartRead e AK8963_MAG_I2C_ADDRESS AK8963_MAG_REG_STATUS1 1
              (dispatched ((completed e buf s)\<lparr>state := CHECK_STATUS\<rparr>))))
        \<lparr>state := WAITING_FOR_STATUS\<rparr>)"
  using assms by (simp add: restart_status_miss restart_check_status)

lemma restart_True_miss_trace:
  assumes "state s = WAITING_FOR_STATUS" "fst (ak8963SPIQueuedReadTimeRemaining e s) = 0"
    "fst (snd (ak8963SPICompleteRead e buf s)) 0 AND STATUS1_DATA_READY = 0"
    "fst (snd (ak8963SPICompleteRead e buf s)) 0 AND STATUS1_DATA_OVERRUN = 0"
  shows "take (length (trace s)) (trace (snd (snd (ak8963Read_restart e True buf md s)))) = trace s
   \<and> filter is_switch (new_events s (snd (snd (ak8963Read_restart e True buf md s))))
       = [Switch WAITING_FOR_STATUS, Switch CHECK_STATUS]
   \<and> \<not> list_ex fill_while_waiting (new_events s (snd (snd (ak8963Read_restart e True buf md s))))"
  using assms
  by (simp add: restart_status_miss_retry SR_trace completed_trace_eq dispatched_def new_events_def)

lemma restart_fst:
  "fst (ak8963Read_restart e retry buf md s) \<longleftrightarrow>
     state s = WAITING_FOR_DATA \<and> fst (ak8963SPIQueuedReadTimeRemaining e s) = 0
     \<and> fst (snd (ak8963SPICompleteRead e buf s)) 6 AND STATUS2_DATA_ERROR = 0
     \<and> fst (snd (ak8963SPICompleteRead e buf s)) 6 AND STATUS2_MAG_SENSOR_OVERFLOW = 0"
proof -
  consider (check) "state s = CHECK_STATUS"
    | (gated) "state s = WAITING_FOR_STATUS \<or> state s = WAITING_FOR_DATA"
        "fst (ak8963SPIQueuedReadTimeRemaining e s) \<noteq> 0"
    | (miss) "state s = WAITING_FOR_STATUS" "fst (ak8963SPIQueuedReadTimeRemaining e s) = 0"
        "fst (snd (ak8963SPICompleteRead e buf s)) 0 AND STATUS1_DATA_READY = 0"
        "fst (snd (ak8963SPICompleteRead e buf s)) 0 AND STATUS1_DATA_OVERRUN = 0"
    | (hit) "state s = WAITING_FOR_STATUS" "fst (ak8963SPIQueuedReadTimeRemaining e s) = 0"
        "fst (snd (ak8963SPICompleteRead e buf s)) 0 AND STATUS1_DATA_READY \<noteq> 0 \<or>
         fst (snd (ak8963SPICompleteRead e buf s)) 0 AND STATUS1_DATA_OVERRUN \<noteq> 0"
    | (bad) "state s = WAITING_FOR_DATA" "fst (ak8963SPIQueuedReadTimeRemaining e s) = 0"
        "fst (snd (ak8963SPICompleteRead e buf s)) 6 AND STATUS2_DATA_ERROR \<noteq> 0 \<or>
         fst (snd (ak8963SPICompleteRead e buf s)) 6 AND STATUS2_MAG_SENSOR_OVERFLOW \<noteq> 0"
    | (ok) "state s = WAITING_FOR_DATA" "fst (ak8963SPIQueuedReadTimeRemaining e s) = 0"
        "fst (snd (ak8963SPICompleteRead e buf s)) 6 AND STATUS2_DATA_ERROR = 0"
        "fst (snd (ak8963SPICompleteRead e buf s)) 6 AND STATUS2_MAG_SENSOR_OVERFLOW = 0"
    | (other) "state s \<noteq> CHECK_STATUS" "state s \<noteq> WAITING_FOR_STATUS" "state s \<noteq> WAITING_FOR_DATA"
    by blast
  then show ?thesis
  proof cases
    case check
    then show ?thesis by (simp add: restart_check_status state_defs)
  next
    case gated
    then show ?thesis by (simp add: restart_gated)
  next
    case miss
    then show ?thesis by (simp add: restart_status_miss restart_check_status state_defs)
  next
    case hit
    then show ?thesis by (simp add: restart_status_hit state_defs)
  next
    case bad
    then show ?thesis by (auto simp add: restart_data_bad)
  next
    case ok
    then show ?thesis by (simp add: restart_data_ok)
  next
    case other
    then show ?thesis by (simp add: restart_other)
  qed
qed

lemma odd_div_top_bit:
  "0 \<le> (k::int) \<Longrightarrow> k < 4294967296 \<Longrightarrow> odd (k div 2147483648) \<longleftrightarrow> 2147483648 \<le> k"
proof (cases "2147483648 \<le> k")
  case True
  assume "0 \<le> k" "k < 4294967296"
  with True have "k div 2147483648 = 1"
    by (simp add: int_div_pos_eq [of k 2147483648 1 "k - 2147483648"])
  with True show ?thesis by simp
next
  case False
  assume "0 \<le> k" "k < 4294967296"
  with False have "k div 2147483648 = 0" by simp
  with False show ?thesis by simp
qed

lemma sint_negative_iff: "sint (w :: 32 word) < 0 \<longleftrightarrow> 2147483648 \<le> uint w"
proof -
  have b: "0 \<le> uint w" "uint w < 4294967296"
    using uint_lt2p [of w] by simp_all
  have "sint w < 0 \<longleftrightarrow> odd (uint w div 2147483648)"
    by (simp add: sint_uint bit_iff_odd)
  also have "\<dots> \<longleftrightarrow> 2147483648 \<le> uint w"
    using b by (rule odd_div_top_bit)
  finally show ?thesis .
qed

lemma uint_budget_minus:
  "uint (8000 - d :: 32 word) = (if uint d \<le> 8000 then 8000 - uint d else 4294975296 - uint d)"
  by (simp add: uint_sub_if')

text \<open>What the remaining-time check returns, by the elapsed time \<open>d\<close> on the 32-bit clock.\<close>

lemma time_remaining_value:
  "fst (ak8963SPIQueuedReadTimeRemaining e s) =
     (if \<not> waiting (queuedRead s) then 0
      else if sint (8000 - (micros_at e (clock_calls s) - readStartedAt (queuedRead s))) < 0 then 0
      else 8000 - (micros_at e (clock_calls s) - readStartedAt (queuedRead s)))"
  by (simp add: ak8963SPIQueuedReadTimeRemaining_def micros_def Let_def)

lemma budget_left:
  fixes d :: "32 word"
  assumes "unat d < 8000"
  shows "\<not> sint (8000 - d) < 0" "0 < 8000 - d" "unat (8000 - d) = 8000 - unat d"
proof -
  have le: "uint d < 8000" using assms unfolding uint_nat by linarith
  then have u: "uint (8000 - d) = 8000 - uint d" by (simp add: uint_budget_minus)
  have nonneg: "0 \<le> uint d" by simp
  from u le nonneg have "\<not> 2147483648 \<le> uint (8000 - d)" by linarith
  then show "\<not> sint (8000 - d) < 0" unfolding sint_negative_iff .
  from u le have "uint (8000 - d) \<noteq> 0" by linarith
  then have "8000 - d \<noteq> 0" by (simp only: uint_0_iff not_False_eq_True)
  then show "0 < 8000 - d" by (simp only: word_neq_0_conv)
  from u have "int (unat (8000 - d)) = 8000 - int (unat d)" by (simp only: uint_nat)
  then show "unat (8000 - d) = 8000 - unat d" by linarith
qed

lemma budget_spent:
  fixes d :: "32 word"
  assumes "8000 \<le> unat d" "unat d < 2 ^ 31"
  shows "sint (8000 - d) < 0 \<or> 8000 - d = 0"
proof (cases "uint d = 8000")
  case True
  then have "uint (8000 - d) = 0" by (simp add: uint_budget_minus)
  then have "8000 - d = 0" by (simp only: uint_0_iff)
  then show ?thesis by (rule disjI2)
next
  case False
  from assms have "unat d < 2147483648" by simp
  with assms have "8000 \<le> uint d" "uint d < 2147483648"
    unfolding uint_nat by linarith+
  with False have "uint (8000 - d) = 4294975296 - uint d" "8000 < uint d"
    by (simp_all add: uint_budget_minus)
  with \<open>uint d < 2147483648\<close> have "2147483648 \<le> uint (8000 - d)" by linarith
  then have "sint (8000 - d) < 0" unfolding sint_negative_iff .
  then show ?thesis by (rule disjI1)
qed

lemma evo_fst:
  "fst (ak8963Read_evo e buf md s) \<longleftrightarrow>
     state s = WAITING_FOR_DATA \<and> fst (ak8963SPIQueuedReadTimeRemaining e s) = 0
     \<and> fst (snd (ak8963SPICompleteRead e buf s)) 6 AND STATUS2_DATA_ERROR = 0
     \<and> fst (snd (ak8963SPICompleteRead e buf s)) 6 AND STATUS2_MAG_SENSOR_OVERFLOW = 0"
  unfolding ak8963Read_evo_def by (rule restart_fst)

lemma evo_trace:
  "take (length (trace s)) (trace (snd (snd (ak8963Read_evo e buf md s)))) = trace s
   \<and> \<not> list_ex fill_while_waiting (new_events s (snd (snd (ak8963Read_evo e buf md s))))
   \<and> filter is_switch (new_events s (snd (snd (ak8963Read_evo e buf md s)))) =
       (if state s = WAITING_FOR_STATUS \<and> fst (ak8963SPIQueuedReadTimeRemaining e s) = 0
           \<and> fst (snd (ak8963SPICompleteRead e buf s)) 0 AND STATUS1_DATA_READY = 0
           \<and> fst (snd (ak8963SPICompleteRead e buf s)) 0 AND STATUS1_DATA_OVERRUN = 0
        then [Switch WAITING_FOR_STATUS, Switch CHECK_STATUS] else [Switch (state s)])"
proof (cases "state s = WAITING_FOR_STATUS \<and> fst (ak8963SPIQueuedReadTimeRemaining e s) = 0
           \<and> fst (snd (ak8963SPICompleteRead e buf s)) 0 AND STATUS1_DATA_READY = 0
           \<and> fst (snd (ak8963SPICompleteRead e buf s)) 0 AND STATUS1_DATA_OVERRUN = 0")
  case True
  with restart_True_miss_trace [of s e buf md] show ?thesis
    by (simp add: ak8963Read_evo_def)
next
  case False
  with restart_retry_irrelevant [of s e buf md] restart_False_trace [of s e buf md] show ?thesis
    by (simp add: ak8963Read_evo_def)
qed

lemma evo_state_after_status:
  assumes "state s = WAITING_FOR_STATUS" "fst (ak8963SPIQueuedReadTimeRemaining e s) = 0"
  shows "state (snd (snd (ak8963Read_evo e buf md s))) =
     (if fst (snd (ak8963SPICompleteRead e buf s)) 0 AND STATUS1_DATA_READY = 0
         \<and> fst (snd (ak8963SPICompleteRead e buf s)) 0 AND STATUS1_DATA_OVERRUN = 0
      then WAITING_FOR_STATUS else WAITING_FOR_DATA)"
  using assms
  by (auto simp add: ak8963Read_evo_def restart_status_miss_retry restart_status_hit)

lemma overflow_mask_subsumes_error:
  "(st2 :: uint8_t) AND STATUS2_DATA_ERROR \<noteq> 0 \<or> st2 AND STATUS2_MAG_SENSOR_OVERFLOW \<noteq> 0
     \<longleftrightarrow> st2 AND 0x03 \<noteq> 0"
proof -
  have "st2 AND 2 = (st2 AND 3) AND 2" by (simp add: and.assoc)
  then have "st2 AND 3 = 0 \<Longrightarrow> st2 AND 2 = 0" by simp
  then show ?thesis
    by (auto simp add: STATUS2_DATA_ERROR_def STATUS2_MAG_SENSOR_OVERFLOW_def)
qed

lemma register_file_read:
  "ak8963config_read (register_file regs rack wack) a r n buf s =
     (rack, (\<lambda>i. if i < unat n then regs (r + of_nat i) else buf i),
      s\<lparr>trace := trace s @ [ConfigRead a r n]\<rparr>)"
  by (simp add: ak8963config_read_def register_file_def)

lemma register_file_write:
  "ak8963config_write (register_file regs rack wack) a r d s =
     (wack, s\<lparr>trace := trace s @ [ConfigWrite a r d]\<rparr>)"
  by (simp add: ak8963config_write_def register_file_def)

lemma sync_no_data:
  assumes "ak8963config_read cfg AK8963_MAG_I2C_ADDRESS AK8963_MAG_REG_STATUS1 1 buf0 s = (ack, buf1, s1)"
    and "\<not> ack \<or> buf1 0 AND STATUS1_DATA_READY = 0"
  shows "ak8963Read_sync cfg buf0 md s = (False, md, s1)"
  using assms by (auto simp add: ak8963Read_sync_def Let_def)

lemma sync_data:
  assumes "ak8963config_read cfg AK8963_MAG_I2C_ADDRESS AK8963_MAG_REG_STATUS1 1 buf0 s = (True, buf1, s1)"
    and "buf1 0 AND STATUS1_DATA_READY \<noteq> 0"
    and "ak8963config_read cfg AK8963_MAG_I2C_ADDRESS AK8963_MAG_REG_HXL 7 buf1 s1 = (ack2, buf2, s2)"
  shows "ak8963Read_sync cfg buf0 md s =
     (if \<not> ack2 \<or> buf2 6 AND STATUS2_DATA_ERROR \<noteq> 0 \<or> buf2 6 AND STATUS2_MAG_SENSOR_OVERFLOW \<noteq> 0
      then (False, md, s2)
      else (fst (ak8963config_write cfg AK8963_MAG_I2C_ADDRESS AK8963_MAG_REG_CNTL CNTL_MODE_ONCE s2),
            decode buf2 (magGain s2) md,
            snd (ak8963config_write cfg AK8963_MAG_I2C_ADDRESS AK8963_MAG_REG_CNTL CNTL_MODE_ONCE s2)))"
  using assms by (simp add: ak8963Read_sync_def Let_def split_beta)

lemma config_read_trace:
  "ak8963config_read cfg a r n buf s = (ack, buf', s') \<Longrightarrow> trace s' = trace s @ [ConfigRead a r n]"
  by (auto simp add: ak8963config_read_def split: prod.splits)

lemma sync_data_trace:
  assumes "ak8963config_read cfg AK8963_MAG_I2C_ADDRESS AK8963_MAG_REG_STATUS1 1 buf0 s = (True, buf1, s1)"
    and "buf1 0 AND STATUS1_DATA_READY \<noteq> 0"
  shows "take 2 (new_events s (snd (snd (ak8963Read_sync cfg buf0 md s)))) =
     [ConfigRead AK8963_MAG_I2C_ADDRESS AK8963_MAG_REG_STATUS1 1,
      ConfigRead AK8963_MAG_I2C_ADDRESS AK8963_MAG_REG_HXL 7]"
proof -
  obtain ack2 buf2 s2 where
    rd2: "ak8963config_read cfg AK8963_MAG_I2C_ADDRESS AK8963_MAG_REG_HXL 7 buf1 s1 = (ack2, buf2, s2)"
    by (cases "ak8963config_read cfg AK8963_MAG_I2C_ADDRESS AK8963_MAG_REG_HXL 7 buf1 s1") auto
  obtain wack s3 where
    wr: "ak8963config_write cfg AK8963_MAG_I2C_ADDRESS AK8963_MAG_REG_CNTL CNTL_MODE_ONCE s2 = (wack, s3)"
    by (cases "ak8963config_write cfg AK8963_MAG_I2C_ADDRESS AK8963_MAG_REG_CNTL CNTL_MODE_ONCE s2") auto
  have t1: "trace s1 = trace s @ [ConfigRead AK8963_MAG_I2C_ADDRESS AK8963_MAG_REG_STATUS1 1]"
    using assms(1) by (rule config_read_trace)
  have t2: "trace s2 = trace s1 @ [ConfigRead AK8963_MAG_I2C_ADDRESS AK8963_MAG_REG_HXL 7]"
    using rd2 by (rule config_read_trace)
  have t3: "trace s3 = trace s2 @ [ConfigWrite AK8963_MAG_I2C_ADDRESS AK8963_MAG_REG_CNTL CNTL_MODE_ONCE]"
    using wr by (auto simp add: ak8963config_write_def split: prod.splits)
  from sync_data [OF assms rd2, of md] wr t1 t2 t3 show ?thesis
    by (simp add: new_events_def)
qed

lemma config_gain [simp]:
  "magGain (snd (ak8963config_write cfg a r d s)) = magGain s"
  "magGain (snd (snd (ak8963config_read cfg a r n buf s))) = magGain s"
  "magGain (delay ms s) = magGain s"
  by (simp_all add: ak8963config_write_def ak8963config_read_def delay_def split_beta)

lemma init_gain:
  "magGain (ak8963Init evo cfg calibration0 status0 s) =
     (magGain s)
       (X := calibration_gain (fst (snd (ak8963config_read cfg AK8963_MAG_I2C_ADDRESS AK8963_MAG_REG_ASAX 3
                 calibration0 (fuse_rom_entered cfg s))) X),
        Y := calibration_gain (fst (snd (ak8963config_read cfg AK8963_MAG_I2C_ADDRESS AK8963_MAG_REG_ASAX 3
                 calibration0 (fuse_rom_entered cfg s))) Y),
        Z := calibration_gain (fst (snd (ak8963config_read cfg AK8963_MAG_I2C_ADDRESS AK8963_MAG_REG_ASAX 3
                 calibration0 (fuse_rom_entered cfg s))) Z))"
  by (simp add: ak8963Init_def fuse_rom_entered_def Let_def split_beta)

text \<open>
  Every step of the gain expression is \<open>m / 256\<close> for an integer \<open>m\<close> of magnitude below
  \<open>2^24\<close>, so each is a binary32 number and the float arithmetic of the C code is exact.
\<close>

lemma gain_steps_exact:
  fixes c :: uint8_t
  shows "\<exists>m1 m2 m3 :: int. \<bar>m1\<bar> < 2 ^ 24 \<and> \<bar>m2\<bar> < 2 ^ 24 \<and> \<bar>m3\<bar> < 2 ^ 24
     \<and> (of_int (sint c) - 128 :: rat) = of_int (256 * m1) / 256
     \<and> ((of_int (sint c) - 128) / 256 :: rat) = of_int m1 / 256
     \<and> ((of_int (sint c) - 128) / 256 + 1 :: rat) = of_int m2 / 256
     \<and> calibration_gain c = of_int m3 / 256"
proof -
  have lo: "- 128 \<le> sint c" using sint_ge [of c] by simp
  have hi: "sint c < 128" using sint_lt [of c] by simp
  let ?m1 = "sint c - 128" and ?m2 = "sint c + 128" and ?m3 = "30 * (sint c + 128)"
  from lo hi have "\<bar>?m1\<bar> < 2 ^ 24" "\<bar>?m2\<bar> < 2 ^ 24" "\<bar>?m3\<bar> < 2 ^ 24" by simp_all
  moreover have "(of_int (sint c) - 128 :: rat) = of_int (256 * ?m1) / 256" by simp
  moreover have "((of_int (sint c) - 128) / 256 :: rat) = of_int ?m1 / 256" by simp
  moreover have "((of_int (sint c) - 128) / 256 + 1 :: rat) = of_int ?m2 / 256"
    by (simp add: field_simps)
  moreover have "calibration_gain c = of_int ?m3 / 256"
    by (simp add: calibration_gain_def field_simps)
  ultimately show ?thesis by blast
qed

lemma exponent_below_stop: "e \<le> - 126 \<or> pow2 e \<le> x \<Longrightarrow> exponent_below e x = e"
  by (subst exponent_below.simps) simp

lemma exponent_below_step:
  "\<not> (e \<le> - 126 \<or> pow2 e \<le> x) \<Longrightarrow> exponent_below e x = exponent_below (e - 1) x"
  by (subst exponent_below.simps) simp

lemmas round_eval =
  round_binary32_def round_half_even_def pow2_def exponent_below_stop exponent_below_step Let_def

lemma exponent_below_le: "exponent_below e x \<le> e"
proof (induction e x rule: exponent_below.induct)
  case (1 e x)
  show ?case
  proof (cases "e \<le> - 126 \<or> pow2 e \<le> x")
    case True
    then show ?thesis by (simp add: exponent_below_stop)
  next
    case False
    with 1 have "exponent_below (e - 1) x \<le> e - 1" by simp
    with False show ?thesis by (simp add: exponent_below_step)
  qed
qed

lemma exponent_below_ge: "- 126 \<le> e \<Longrightarrow> - 126 \<le> exponent_below e x"
proof (induction e x rule: exponent_below.induct)
  case (1 e x)
  show ?case
  proof (cases "e \<le> - 126 \<or> pow2 e \<le> x")
    case True
    with 1(2) show ?thesis by (simp add: exponent_below_stop)
  next
    case False
    then have "- 126 \<le> e - 1" by simp
    with 1(1) False have "- 126 \<le> exponent_below (e - 1) x" by simp
    with False show ?thesis by (simp add: exponent_below_step)
  qed
qed

lemma pow2_ge_16: "16 \<le> e \<Longrightarrow> 65536 \<le> pow2 e"
proof -
  assume a: "16 \<le> e"
  then have "(2::rat) ^ 16 \<le> 2 ^ nat e" by (intro power_increasing) simp_all
  with a show ?thesis by (simp add: pow2_def)
qed

lemma exponent_below_small: "x < 65536 \<Longrightarrow> 15 \<le> e \<Longrightarrow> exponent_below e x \<le> 15"
proof (induction e x rule: exponent_below.induct)
  case (1 e x)
  show ?case
  proof (cases "e \<le> - 126 \<or> pow2 e \<le> x")
    case True
    with 1(3) have "pow2 e \<le> x" by simp
    with 1(2) have "pow2 e < 65536" by simp
    with pow2_ge_16 [of e] have "e < 16" by (cases "16 \<le> e") simp_all
    with True show ?thesis by (simp add: exponent_below_stop)
  next
    case False
    show ?thesis
    proof (cases "15 \<le> e - 1")
      case True
      with 1(1) [OF False 1(2)] False show ?thesis by (simp add: exponent_below_step)
    next
      case f: False
      with exponent_below_le [of "e - 1" x] have "exponent_below (e - 1) x \<le> 15" by simp
      with False show ?thesis by (simp add: exponent_below_step)
    qed
  qed
qed

text \<open>
  Rounding leaves a multiple of \<open>1/256\<close> of magnitude below \<open>2^16\<close> as it is. So the gains
  that \<^verbatim>\<open>ak8963Init\<close> stores and the initial gain are binary32 numbers, and with such a
  gain the product with a raw value is exact whenever it is below \<open>2^16\<close> in magnitude,
  which includes every product within \<^verbatim>\<open>int16_t\<close>.
\<close>

lemma round_half_even_of_int: "round_half_even (of_int k) = k"
  by (simp add: round_half_even_def)

lemma round_binary32_exact:
  assumes x: "x = of_int m / 256" and small: "\<bar>x\<bar> < 65536"
  shows "round_binary32 x = x"
proof -
  define E where "E = exponent_below 127 \<bar>x\<bar>"
  have lo: "- 126 \<le> E" unfolding E_def by (rule exponent_below_ge) simp
  have hi: "E \<le> 15" unfolding E_def using small by (rule exponent_below_small) simp
  define n where "n = nat (15 - E)"
  from hi have e: "nat (23 - E) = 8 + n" by (simp add: n_def)
  from hi have ulp: "pow2 (E - 23) = 1 / (256 * 2 ^ n)"
    by (simp add: pow2_def e power_add)
  have q: "x / pow2 (E - 23) = of_int (m * 2 ^ n)"
    by (simp add: ulp x)
  have "round_binary32 x = of_int (round_half_even (x / pow2 (E - 23))) * pow2 (E - 23)"
    by (simp add: round_binary32_def E_def Let_def)
  also have "\<dots> = of_int (m * 2 ^ n) * pow2 (E - 23)"
    unfolding q by (simp only: round_half_even_of_int)
  also have "\<dots> = x"
    by (simp add: ulp x)
  finally show ?thesis .
qed

lemma init_gain_is_binary32: "round_binary32 (calibration_gain c) = calibration_gain c"
proof -
  define k where "k = 30 * (sint c + 128)"
  have lo: "- 128 \<le> sint c" using sint_ge [of c] by simp
  have hi: "sint c < 128" using sint_lt [of c] by simp
  from lo hi have k0: "0 \<le> k" and k1: "k < 16777216" by (simp_all add: k_def)
  have eq: "calibration_gain c = of_int k / 256"
    by (simp add: calibration_gain_def k_def field_simps)
  from k0 have p0: "0 \<le> (of_int k :: rat)" by simp
  from k1 have p1: "(of_int k :: rat) < 16777216"
    by (metis of_int_less_iff of_int_numeral)
  from p0 p1 have "\<bar>of_int k / 256 :: rat\<bar> < 65536" by simp
  then have "\<bar>calibration_gain c\<bar> < 65536" by (simp only: eq)
  with eq show ?thesis by (rule round_binary32_exact)
qed

lemma unit_gain_is_binary32: "round_binary32 1 = 1"
  using round_binary32_exact [of 1 256] by simp

lemma init_gain_product_exact:
  assumes "\<bar>of_int n * calibration_gain c\<bar> < 65536"
  shows "round_binary32 (of_int n * calibration_gain c) = of_int n * calibration_gain c"
proof -
  have "of_int n * calibration_gain c = of_int (n * (30 * (sint c + 128))) / 256"
    by (simp add: calibration_gain_def field_simps)
  then show ?thesis using assms by (rule round_binary32_exact)
qed


text \<open>The example of the spec: raw values 256, 512, 768 with unit gains decode to
  \<open>-256, -512, -768\<close>.\<close>

lemma decode_example:
  "map (decode (\<lambda>i. [0x00, 0x01, 0x00, 0x02, 0x00, 0x03, 0x00] ! i) (\<lambda>i. 1) zeros) [X, Y, Z]
     = [Stored (- 256), Stored (- 512), Stored (- 768)]"
  by (simp add: decode_def axis_raw_def float_to_int16_def axis_defs round_eval)

text \<open>
  Rounding and range. A raw value of \<open>-32699\<close> (bytes \<open>0x45, 0x80\<close>) with the gain that
  \<^verbatim>\<open>ak8963Init\<close> stores for the calibration byte \<open>0xA3\<close> has the exact product
  \<open>17166975 / 128\<close>, which binary32 rounds to 134117; that is outside \<^verbatim>\<open>int16_t\<close>, so what is
  stored is not determined. With a raw value of 10 and the binary32 number nearest to 0.7
  as gain (\<open>11744051 / 2^24\<close>), the exact product is just below 7, binary32 rounds it to
  7 and 7 is stored, where truncating the exact product would give 6.
\<close>

lemma decode_rounds_then_converts:
  "axis_raw 0x45 0x80 = 32699"
  "calibration_gain 0xA3 = 525 / 128"
  "round_binary32 (of_int (axis_raw 0x45 0x80) * calibration_gain 0xA3) = 134117"
  "float_to_int16 (round_binary32 (of_int (axis_raw 0x45 0x80) * calibration_gain 0xA3)) = Indeterminate"
  "round_binary32 (of_int 10 * (11744051 / 16777216)) = 7"
  "float_to_int16 (round_binary32 (of_int 10 * (11744051 / 16777216))) = Stored 7"
  "\<lfloor>(of_int 10 * (11744051 / 16777216) :: rat)\<rfloor> = 6"
proof -
  show raw: "axis_raw 0x45 0x80 = 32699"
    by (simp add: axis_raw_def)
  show gain: "calibration_gain 0xA3 = 525 / 128"
    by (simp add: calibration_gain_def)
  have f1: "\<lfloor>(17166975 :: rat) / 2\<rfloor> = 8583487"
    by (rule floor_unique) simp_all
  show big: "round_binary32 (of_int (axis_raw 0x45 0x80) * calibration_gain 0xA3) = 134117"
    by (simp add: raw gain round_eval f1)
  then show "float_to_int16 (round_binary32 (of_int (axis_raw 0x45 0x80) * calibration_gain 0xA3))
      = Indeterminate"
    by (simp add: float_to_int16_def)
  have f2: "\<lfloor>(58720255 :: rat) / 4\<rfloor> = 14680063"
    by (rule floor_unique) simp_all
  show seven: "round_binary32 (of_int 10 * (11744051 / 16777216)) = 7"
    by (simp add: round_eval f2)
  then show "float_to_int16 (round_binary32 (of_int 10 * (11744051 / 16777216))) = Stored 7"
    by (simp add: float_to_int16_def)
  show "\<lfloor>(of_int 10 * (11744051 / 16777216) :: rat)\<rfloor> = 6"
    by (rule floor_unique) simp_all
qed

text \<open>Data bytes that are all \<open>0x01\<close> are the raw value 257 on each axis; with unit
  gains the sample is \<open>-257\<close> on each axis.\<close>

lemma decode_all_ones:
  fixes buf :: bytes
  assumes "buf 0 = 0x01" "buf (Suc 0) = 0x01" "buf 2 = 0x01" "buf 3 = 0x01" "buf 4 = 0x01" "buf 5 = 0x01"
  shows "map (decode buf (\<lambda>i. 1) md) [X, Y, Z] = [Stored (- 257), Stored (- 257), Stored (- 257)]"
proof -
  have val: "float_to_int16 (round_binary32 (of_int (axis_raw 1 1))) = Stored (- 257)"
    by (simp add: axis_raw_def round_eval float_to_int16_def)
  show ?thesis
    by (simp add: decode_def assms val axis_defs Let_def)
qed

text \<open>With a sensor that reports data-ready and an unflagged sample, the third invocation
  yields the sample and the protocol is back in \<open>CHECK_STATUS\<close>.\<close>

lemma three_tick_cycle:
  "three_ticks (\<lambda>i. if i = 0 then 1 else 0) =
     ([False, False, True], [WAITING_FOR_STATUS, WAITING_FOR_DATA, CHECK_STATUS])"
  unfolding three_ticks_def ak8963Read_evo_def
  by (simp add: ak8963Read_restart.simps Let_def split_beta state_defs register_defs ticking_env_def
    initial_driver_def ak8963SPIStartRead_def ak8963SPIQueuedReadTimeRemaining_def ak8963SPICompleteRead_def
    micros_def verifympu9250WriteRegister_def mpu9250ReadRegister_def delayMicroseconds_def)

section \<open>The claims\<close>

subsection \<open>The queued-read slot\<close>

text \<open>
  Claim C6. A call of \<^verbatim>\<open>ak8963SPIStartRead\<close> made while a queued read is outstanding
  (\<^verbatim>\<open>queuedRead.waiting\<close> is set) returns false and changes nothing: the recorded length,
  the start timestamp and the waiting flag are what they were, no register of the
  pass-through master is written and the clock is not read, so no second read is queued
  and the outstanding one is not overwritten.
\<close>

theorem start_read_rejected_while_waiting:
  "waiting (queuedRead s) \<Longrightarrow> ak8963SPIStartRead e addr reg count s = (False, s)"
  by (simp add: ak8963SPIStartRead_def)

theorem start_read_rejected_while_waiting_witness:
  "waiting (queuedRead (driver_in WAITING_FOR_STATUS \<lparr>waiting = True, len = 1, readStartedAt = 5\<rparr>))
   \<and> ak8963SPIStartRead (steady_env 9 zeros) AK8963_MAG_I2C_ADDRESS AK8963_MAG_REG_HXL 7
        (driver_in WAITING_FOR_STATUS \<lparr>waiting = True, len = 1, readStartedAt = 5\<rparr>)
      = (False, driver_in WAITING_FOR_STATUS \<lparr>waiting = True, len = 1, readStartedAt = 5\<rparr>)"
proof -
  have h: "waiting (queuedRead (driver_in WAITING_FOR_STATUS \<lparr>waiting = True, len = 1, readStartedAt = 5\<rparr>))"
    by (simp add: driver_in_def initial_driver_def)
  from h start_read_rejected_while_waiting [OF h] show ?thesis by simp
qed

text \<open>
  Claim C7, as amended. When no read is waiting the remaining-time check returns 0. For
  a waiting read, with the elapsed time taken on the 32-bit microsecond clock (the
  current reading minus the start timestamp, modulo \<open>2^32\<close>): while fewer than 8000
  microseconds have elapsed the check returns what is left of the 8000, which is
  positive; once at least 8000 and fewer than \<open>2^31\<close> microseconds have elapsed it
  returns 0. The claim as stated has no upper bound on the elapsed time; the
  counterexample below is a read that has been waiting for \<open>2^31 + 8192\<close> microseconds, for
  which the check still reports 2147483456 microseconds remaining, because the code reads
  the elapsed time as a signed 32-bit number.
\<close>

theorem time_remaining_within_half_clock_range:
  "(\<not> waiting (queuedRead s) \<longrightarrow> fst (ak8963SPIQueuedReadTimeRemaining e s) = 0)
   \<and> (waiting (queuedRead s)
        \<and> unat (micros_at e (clock_calls s) - readStartedAt (queuedRead s)) < 8000 \<longrightarrow>
      0 < fst (ak8963SPIQueuedReadTimeRemaining e s)
      \<and> unat (fst (ak8963SPIQueuedReadTimeRemaining e s)) =
          8000 - unat (micros_at e (clock_calls s) - readStartedAt (queuedRead s)))
   \<and> (waiting (queuedRead s)
        \<and> 8000 \<le> unat (micros_at e (clock_calls s) - readStartedAt (queuedRead s))
        \<and> unat (micros_at e (clock_calls s) - readStartedAt (queuedRead s)) < 2 ^ 31 \<longrightarrow>
      fst (ak8963SPIQueuedReadTimeRemaining e s) = 0)"
  using budget_left [of "micros_at e (clock_calls s) - readStartedAt (queuedRead s)"]
    budget_spent [of "micros_at e (clock_calls s) - readStartedAt (queuedRead s)"]
  by (auto simp add: time_remaining_value)

theorem time_remaining_within_half_clock_range_witness:
  "fst (ak8963SPIQueuedReadTimeRemaining (steady_env 5000 zeros)
         (driver_in WAITING_FOR_STATUS \<lparr>waiting = False, len = 1, readStartedAt = 1000\<rparr>)) = 0
   \<and> 0 < fst (ak8963SPIQueuedReadTimeRemaining (steady_env 5000 zeros)
         (driver_in WAITING_FOR_STATUS \<lparr>waiting = True, len = 1, readStartedAt = 1000\<rparr>))
   \<and> fst (ak8963SPIQueuedReadTimeRemaining (steady_env 9000 zeros)
         (driver_in WAITING_FOR_STATUS \<lparr>waiting = True, len = 1, readStartedAt = 1000\<rparr>)) = 0"
proof -
  let ?idle = "driver_in WAITING_FOR_STATUS \<lparr>waiting = False, len = 1, readStartedAt = 1000\<rparr>"
  let ?busy = "driver_in WAITING_FOR_STATUS \<lparr>waiting = True, len = 1, readStartedAt = 1000\<rparr>"
  have idle: "\<not> waiting (queuedRead ?idle)"
    by (simp add: driver_in_def initial_driver_def)
  have busy: "waiting (queuedRead ?busy)"
    by (simp add: driver_in_def initial_driver_def)
  have early: "unat (micros_at (steady_env 5000 zeros) (clock_calls ?busy) - readStartedAt (queuedRead ?busy)) < 8000"
    by (simp add: driver_in_def initial_driver_def steady_env_def)
  have late: "8000 \<le> unat (micros_at (steady_env 9000 zeros) (clock_calls ?busy) - readStartedAt (queuedRead ?busy))"
    "unat (micros_at (steady_env 9000 zeros) (clock_calls ?busy) - readStartedAt (queuedRead ?busy)) < 2 ^ 31"
    by (simp_all add: driver_in_def initial_driver_def steady_env_def)
  from idle busy early late
    time_remaining_within_half_clock_range [of ?idle "steady_env 5000 zeros"]
    time_remaining_within_half_clock_range [of ?busy "steady_env 5000 zeros"]
    time_remaining_within_half_clock_range [of ?busy "steady_env 9000 zeros"]
  show ?thesis by blast
qed

theorem time_remaining_counterexample:
  "waiting (queuedRead (driver_in WAITING_FOR_DATA \<lparr>waiting = True, len = 7, readStartedAt = 0\<rparr>))
   \<and> 8000 \<le> unat (micros_at (steady_env 0x80002000 zeros)
                     (clock_calls (driver_in WAITING_FOR_DATA \<lparr>waiting = True, len = 7, readStartedAt = 0\<rparr>))
                   - readStartedAt (queuedRead (driver_in WAITING_FOR_DATA \<lparr>waiting = True, len = 7, readStartedAt = 0\<rparr>)))
   \<and> fst (ak8963SPIQueuedReadTimeRemaining (steady_env 0x80002000 zeros)
           (driver_in WAITING_FOR_DATA \<lparr>waiting = True, len = 7, readStartedAt = 0\<rparr>)) = 0x7FFFFF40"
  by (simp add: ak8963SPIQueuedReadTimeRemaining_def micros_def driver_in_def initial_driver_def steady_env_def)

subsection \<open>The queued reader\<close>

text \<open>
  Claim C8. \<^verbatim>\<open>ak8963Read\<close> (queued variant) is a total function: its only jump back,
  \<^verbatim>\<open>goto restart\<close>, is taken with \<^verbatim>\<open>retry\<close> cleared, and the termination proof of
  \<open>ak8963Read_restart\<close> rests on that. One invocation evaluates \<^verbatim>\<open>switch (state)\<close> at most
  twice. It does so twice exactly when it is in \<open>WAITING_FOR_STATUS\<close>, the time check
  passes and the completed status byte shows neither data-ready nor data-overrun; the
  second evaluation then is the \<open>CHECK_STATUS\<close> case and the invocation returns no
  sample. Entered with \<^verbatim>\<open>retry\<close> cleared, the body evaluates the switch once, and on such a
  miss it returns no sample with the state set to \<open>CHECK_STATUS\<close> instead of jumping
  again.
\<close>

theorem read_evo_retries_at_most_once:
  "switches (new_events s (snd (snd (ak8963Read_evo e buf md s)))) \<le> 2
   \<and> (switches (new_events s (snd (snd (ak8963Read_evo e buf md s)))) = 2 \<longrightarrow>
        state s = WAITING_FOR_STATUS
        \<and> fst (snd (ak8963SPICompleteRead e buf s)) 0 AND STATUS1_DATA_READY = 0
        \<and> fst (snd (ak8963SPICompleteRead e buf s)) 0 AND STATUS1_DATA_OVERRUN = 0
        \<and> filter is_switch (new_events s (snd (snd (ak8963Read_evo e buf md s)))) =
            [Switch WAITING_FOR_STATUS, Switch CHECK_STATUS]
        \<and> \<not> fst (ak8963Read_evo e buf md s))
   \<and> switches (new_events s (snd (snd (ak8963Read_restart e False buf md s)))) = 1
   \<and> (state s = WAITING_FOR_STATUS \<and> fst (ak8963SPIQueuedReadTimeRemaining e s) = 0
        \<and> fst (snd (ak8963SPICompleteRead e buf s)) 0 AND STATUS1_DATA_READY = 0
        \<and> fst (snd (ak8963SPICompleteRead e buf s)) 0 AND STATUS1_DATA_OVERRUN = 0 \<longrightarrow>
        switches (new_events s (snd (snd (ak8963Read_evo e buf md s)))) = 2
        \<and> \<not> fst (ak8963Read_restart e False buf md s)
        \<and> state (snd (snd (ak8963Read_restart e False buf md s))) = CHECK_STATUS)"
proof -
  have once: "switches (new_events s (snd (snd (ak8963Read_restart e False buf md s)))) = 1"
    using restart_False_trace [of s e buf md] by (simp add: switches_def)
  have miss: "\<not> fst (ak8963Read_restart e False buf md s)
      \<and> state (snd (snd (ak8963Read_restart e False buf md s))) = CHECK_STATUS"
    if "state s = WAITING_FOR_STATUS" "fst (ak8963SPIQueuedReadTimeRemaining e s) = 0"
      "fst (snd (ak8963SPICompleteRead e buf s)) 0 AND STATUS1_DATA_READY = 0"
      "fst (snd (ak8963SPICompleteRead e buf s)) 0 AND STATUS1_DATA_OVERRUN = 0"
    using that by (simp add: restart_status_miss)
  from once miss evo_trace [of s e buf md] evo_fst [of e buf md s] show ?thesis
    by (auto simp add: switches_def state_defs split: if_splits)
qed

theorem read_evo_retries_at_most_once_witness:
  "switches (new_events (driver_in WAITING_FOR_STATUS \<lparr>waiting = False, len = 1, readStartedAt = 0\<rparr>)
      (snd (snd (ak8963Read_evo (steady_env 0 zeros) zeros zeros
         (driver_in WAITING_FOR_STATUS \<lparr>waiting = False, len = 1, readStartedAt = 0\<rparr>))))) = 2
   \<and> \<not> fst (ak8963Read_evo (steady_env 0 zeros) zeros zeros
         (driver_in WAITING_FOR_STATUS \<lparr>waiting = False, len = 1, readStartedAt = 0\<rparr>))
   \<and> \<not> fst (ak8963Read_restart (steady_env 0 zeros) False zeros zeros
         (driver_in WAITING_FOR_STATUS \<lparr>waiting = False, len = 1, readStartedAt = 0\<rparr>))
   \<and> state (snd (snd (ak8963Read_restart (steady_env 0 zeros) False zeros zeros
         (driver_in WAITING_FOR_STATUS \<lparr>waiting = False, len = 1, readStartedAt = 0\<rparr>)))) = CHECK_STATUS"
proof -
  let ?s = "driver_in WAITING_FOR_STATUS \<lparr>waiting = False, len = 1, readStartedAt = 0\<rparr>"
  let ?e = "steady_env 0 zeros"
  have st: "state ?s = WAITING_FOR_STATUS"
    by (simp add: driver_in_def initial_driver_def)
  have due: "fst (ak8963SPIQueuedReadTimeRemaining ?e ?s) = 0"
    by (simp add: time_remaining_value driver_in_def initial_driver_def)
  have miss: "fst (snd (ak8963SPICompleteRead ?e zeros ?s)) 0 AND STATUS1_DATA_READY = 0"
    "fst (snd (ak8963SPICompleteRead ?e zeros ?s)) 0 AND STATUS1_DATA_OVERRUN = 0"
    by (simp_all add: CR_buf driver_in_def initial_driver_def steady_env_def zeros_def)
  from st due miss read_evo_retries_at_most_once [of ?s ?e zeros zeros] show ?thesis
    by blast
qed

text \<open>
  Claim C9. No invocation of the queued reader fills a receive buffer while
  \<^verbatim>\<open>queuedRead.waiting\<close> is set. An invocation that returns a sample has completed the
  queued transaction in that same invocation (it read the external sensor data registers
  with the flag already cleared) and returns with the flag cleared. \<^verbatim>\<open>ak8963SPICompleteRead\<close>
  itself clears the flag before it fills the buffer: the read is its last event and is
  recorded with the flag cleared.
\<close>

theorem no_fill_and_no_sample_while_waiting:
  "\<not> list_ex fill_while_waiting (new_events s (snd (snd (ak8963Read_evo e buf md s))))
   \<and> (fst (ak8963Read_evo e buf md s) \<longrightarrow>
        \<not> waiting (queuedRead (snd (snd (ak8963Read_evo e buf md s))))
        \<and> RegRead MPU_RA_EXT_SENS_DATA_00 (len (queuedRead s)) False
            \<in> set (new_events s (snd (snd (ak8963Read_evo e buf md s)))))
   \<and> \<not> waiting (queuedRead (snd (snd (ak8963SPICompleteRead e buf s))))
   \<and> last (trace (snd (snd (ak8963SPICompleteRead e buf s)))) =
        RegRead MPU_RA_EXT_SENS_DATA_00 (len (queuedRead s)) False"
proof -
  have sample: "\<not> waiting (queuedRead (snd (snd (ak8963Read_evo e buf md s))))
        \<and> RegRead MPU_RA_EXT_SENS_DATA_00 (len (queuedRead s)) False
            \<in> set (new_events s (snd (snd (ak8963Read_evo e buf md s))))"
    if "fst (ak8963Read_evo e buf md s)"
  proof -
    from that have ok: "state s = WAITING_FOR_DATA" "fst (ak8963SPIQueuedReadTimeRemaining e s) = 0"
      "fst (snd (ak8963SPICompleteRead e buf s)) 6 AND STATUS2_DATA_ERROR = 0"
      "fst (snd (ak8963SPICompleteRead e buf s)) 6 AND STATUS2_MAG_SENSOR_OVERFLOW = 0"
      by (simp_all add: evo_fst)
    then show ?thesis
      by (simp add: ak8963Read_evo_def restart_data_ok completed_trace_eq new_events_def)
  qed
  have complete: "\<not> waiting (queuedRead (snd (snd (ak8963SPICompleteRead e buf s))))
     \<and> last (trace (snd (snd (ak8963SPICompleteRead e buf s)))) =
        RegRead MPU_RA_EXT_SENS_DATA_00 (len (queuedRead s)) False"
    by (simp add: CR_state)
  from sample complete evo_trace [of s e buf md] show ?thesis by blast
qed

theorem no_fill_and_no_sample_while_waiting_witness:
  "fst (ak8963Read_evo (steady_env 9000 (sample_with_status2 0)) zeros zeros
         (driver_in WAITING_FOR_DATA \<lparr>waiting = True, len = 7, readStartedAt = 0\<rparr>))
   \<and> \<not> waiting (queuedRead (snd (snd (ak8963Read_evo (steady_env 9000 (sample_with_status2 0)) zeros zeros
         (driver_in WAITING_FOR_DATA \<lparr>waiting = True, len = 7, readStartedAt = 0\<rparr>)))))
   \<and> RegRead MPU_RA_EXT_SENS_DATA_00 7 False
        \<in> set (new_events (driver_in WAITING_FOR_DATA \<lparr>waiting = True, len = 7, readStartedAt = 0\<rparr>)
            (snd (snd (ak8963Read_evo (steady_env 9000 (sample_with_status2 0)) zeros zeros
              (driver_in WAITING_FOR_DATA \<lparr>waiting = True, len = 7, readStartedAt = 0\<rparr>)))))"
proof -
  let ?s = "driver_in WAITING_FOR_DATA \<lparr>waiting = True, len = 7, readStartedAt = 0\<rparr>"
  let ?e = "steady_env 9000 (sample_with_status2 0)"
  have st: "state ?s = WAITING_FOR_DATA" "len (queuedRead ?s) = 7"
    by (simp_all add: driver_in_def initial_driver_def)
  have due: "fst (ak8963SPIQueuedReadTimeRemaining ?e ?s) = 0"
    by (simp add: time_remaining_value driver_in_def initial_driver_def steady_env_def)
  have good: "fst (snd (ak8963SPICompleteRead ?e zeros ?s)) 6 AND STATUS2_DATA_ERROR = 0"
    "fst (snd (ak8963SPICompleteRead ?e zeros ?s)) 6 AND STATUS2_MAG_SENSOR_OVERFLOW = 0"
    by (simp_all add: CR_buf driver_in_def initial_driver_def steady_env_def sample_with_status2_def)
  from st due good have sample: "fst (ak8963Read_evo ?e zeros zeros ?s)"
    by (simp add: evo_fst)
  from sample st no_fill_and_no_sample_while_waiting [of ?s ?e zeros zeros] show ?thesis
    by simp
qed

text \<open>
  Claim C10. \<^verbatim>\<open>ak8963SPICompleteRead\<close> returns true on every call. So, once the time check
  of the queued reader has passed and the read is completed, the outcome depends on the
  status bits alone: in \<open>WAITING_FOR_DATA\<close> no sample is returned exactly when the trailing
  status byte has a bit of \<^verbatim>\<open>STATUS2_DATA_ERROR\<close> or of \<^verbatim>\<open>STATUS2_MAG_SENSOR_OVERFLOW\<close> set, and
  in \<open>WAITING_FOR_STATUS\<close> the reader fails to move on to \<open>WAITING_FOR_DATA\<close> exactly when
  the status byte has neither data-ready nor data-overrun set.
\<close>

theorem complete_read_never_reports_failure:
  "fst (ak8963SPICompleteRead e buf s)
   \<and> (state s = WAITING_FOR_DATA \<and> fst (ak8963SPIQueuedReadTimeRemaining e s) = 0 \<longrightarrow>
        (\<not> fst (ak8963Read_evo e buf md s)) =
          (fst (snd (ak8963SPICompleteRead e buf s)) 6 AND STATUS2_DATA_ERROR \<noteq> 0
           \<or> fst (snd (ak8963SPICompleteRead e buf s)) 6 AND STATUS2_MAG_SENSOR_OVERFLOW \<noteq> 0))
   \<and> (state s = WAITING_FOR_STATUS \<and> fst (ak8963SPIQueuedReadTimeRemaining e s) = 0 \<longrightarrow>
        (state (snd (snd (ak8963Read_evo e buf md s))) \<noteq> WAITING_FOR_DATA) =
          (fst (snd (ak8963SPICompleteRead e buf s)) 0 AND STATUS1_DATA_READY = 0
           \<and> fst (snd (ak8963SPICompleteRead e buf s)) 0 AND STATUS1_DATA_OVERRUN = 0))"
  using evo_state_after_status [of s e buf md]
  by (auto simp add: CR_fst evo_fst state_defs)

theorem complete_read_never_reports_failure_witness:
  "fst (ak8963SPICompleteRead (steady_env 9000 (sample_with_status2 0)) zeros
         (driver_in WAITING_FOR_DATA \<lparr>waiting = True, len = 7, readStartedAt = 0\<rparr>))
   \<and> fst (ak8963Read_evo (steady_env 9000 (sample_with_status2 0)) zeros zeros
         (driver_in WAITING_FOR_DATA \<lparr>waiting = True, len = 7, readStartedAt = 0\<rparr>))
   \<and> state (snd (snd (ak8963Read_evo (steady_env 9000 (sample_with_status2 0)) zeros zeros
         (driver_in WAITING_FOR_STATUS \<lparr>waiting = True, len = 1, readStartedAt = 0\<rparr>)))) \<noteq> WAITING_FOR_DATA"
proof -
  let ?d = "driver_in WAITING_FOR_DATA \<lparr>waiting = True, len = 7, readStartedAt = 0\<rparr>"
  let ?t = "driver_in WAITING_FOR_STATUS \<lparr>waiting = True, len = 1, readStartedAt = 0\<rparr>"
  let ?e = "steady_env 9000 (sample_with_status2 0)"
  have st: "state ?d = WAITING_FOR_DATA" "state ?t = WAITING_FOR_STATUS"
    by (simp_all add: driver_in_def initial_driver_def)
  have due: "fst (ak8963SPIQueuedReadTimeRemaining ?e ?d) = 0"
    "fst (ak8963SPIQueuedReadTimeRemaining ?e ?t) = 0"
    by (simp_all add: time_remaining_value driver_in_def initial_driver_def steady_env_def)
  have good: "fst (snd (ak8963SPICompleteRead ?e zeros ?d)) 6 AND STATUS2_DATA_ERROR = 0"
    "fst (snd (ak8963SPICompleteRead ?e zeros ?d)) 6 AND STATUS2_MAG_SENSOR_OVERFLOW = 0"
    by (simp_all add: CR_buf driver_in_def initial_driver_def steady_env_def sample_with_status2_def)
  have miss: "fst (snd (ak8963SPICompleteRead ?e zeros ?t)) 0 AND STATUS1_DATA_READY = 0"
    "fst (snd (ak8963SPICompleteRead ?e zeros ?t)) 0 AND STATUS1_DATA_OVERRUN = 0"
    by (simp_all add: CR_buf driver_in_def initial_driver_def steady_env_def sample_with_status2_def)
  from st due good miss
    complete_read_never_reports_failure [of ?e zeros ?d zeros]
    complete_read_never_reports_failure [of ?e zeros ?t zeros]
  show ?thesis by blast
qed

text \<open>
  Claim C1. The claim says that after a data read whose trailing status byte is flagged
  the reader returns no sample and is back in \<open>CHECK_STATUS\<close>. The code returns no sample
  but leaves the state at \<open>WAITING_FOR_DATA\<close>: the theorem is what the code does on every
  such invocation; the instance that follows it has a trailing status byte of \<open>0x02\<close>. The
  waiting flag is cleared by then, so the next invocation passes the time check at once
  and reads the data registers again without queuing a transaction.
\<close>

theorem data_error_leaves_waiting_for_data:
  assumes "state s = WAITING_FOR_DATA"
    and "fst (ak8963SPIQueuedReadTimeRemaining e s) = 0"
    and "fst (snd (ak8963SPICompleteRead e buf s)) 6 AND STATUS2_DATA_ERROR \<noteq> 0
         \<or> fst (snd (ak8963SPICompleteRead e buf s)) 6 AND STATUS2_MAG_SENSOR_OVERFLOW \<noteq> 0"
  shows "\<not> fst (ak8963Read_evo e buf md s)
    \<and> state (snd (snd (ak8963Read_evo e buf md s))) = WAITING_FOR_DATA
    \<and> state (snd (snd (ak8963Read_evo e buf md s))) \<noteq> CHECK_STATUS
    \<and> \<not> waiting (queuedRead (snd (snd (ak8963Read_evo e buf md s))))"
  using assms by (simp add: ak8963Read_evo_def restart_data_bad state_defs)

theorem data_error_leaves_waiting_for_data_witness:
  "\<not> fst (ak8963Read_evo (steady_env 9000 (sample_with_status2 0x02)) zeros zeros
         (driver_in WAITING_FOR_DATA \<lparr>waiting = True, len = 7, readStartedAt = 0\<rparr>))
   \<and> state (snd (snd (ak8963Read_evo (steady_env 9000 (sample_with_status2 0x02)) zeros zeros
         (driver_in WAITING_FOR_DATA \<lparr>waiting = True, len = 7, readStartedAt = 0\<rparr>)))) = WAITING_FOR_DATA
   \<and> state (snd (snd (ak8963Read_evo (steady_env 9000 (sample_with_status2 0x02)) zeros zeros
         (driver_in WAITING_FOR_DATA \<lparr>waiting = True, len = 7, readStartedAt = 0\<rparr>)))) \<noteq> CHECK_STATUS"
proof -
  let ?s = "driver_in WAITING_FOR_DATA \<lparr>waiting = True, len = 7, readStartedAt = 0\<rparr>"
  let ?e = "steady_env 9000 (sample_with_status2 0x02)"
  have st: "state ?s = WAITING_FOR_DATA"
    by (simp add: driver_in_def initial_driver_def)
  have due: "fst (ak8963SPIQueuedReadTimeRemaining ?e ?s) = 0"
    by (simp add: time_remaining_value driver_in_def initial_driver_def steady_env_def)
  have bad: "fst (snd (ak8963SPICompleteRead ?e zeros ?s)) 6 AND STATUS2_DATA_ERROR \<noteq> 0"
    by (simp add: CR_buf driver_in_def initial_driver_def steady_env_def sample_with_status2_def
        STATUS2_DATA_ERROR_def)
  from data_error_leaves_waiting_for_data [OF st due disjI1 [OF bad], of zeros] show ?thesis
    by blast
qed

subsection \<open>The synchronous reader\<close>

text \<open>
  Claim C4, as amended. The synchronous reader returns no sample having issued only the
  1-byte status read exactly when that read is not acknowledged or the status byte has
  the data-ready bit (bit 0) clear; the data-overrun bit is not looked at. Whenever the
  status read is acknowledged and data-ready is set, the next transaction is the 7-byte
  read at the first data register. The counterexample below is a status byte of \<open>0x02\<close>
  (data-overrun only): the claim as stated has the reader go on to the data read, the code
  returns no sample after the status read.
\<close>

theorem sync_reader_gates_on_data_ready_only:
  assumes "ak8963config_read cfg AK8963_MAG_I2C_ADDRESS AK8963_MAG_REG_STATUS1 1 buf0 s = (ack, buf1, s1)"
  shows "(new_events s (snd (snd (ak8963Read_sync cfg buf0 md s))) =
            [ConfigRead AK8963_MAG_I2C_ADDRESS AK8963_MAG_REG_STATUS1 1])
           = (\<not> ack \<or> buf1 0 AND STATUS1_DATA_READY = 0)
    \<and> (\<not> ack \<or> buf1 0 AND STATUS1_DATA_READY = 0 \<longrightarrow>
          ak8963Read_sync cfg buf0 md s = (False, md, s1))
    \<and> (ack \<and> buf1 0 AND STATUS1_DATA_READY \<noteq> 0 \<longrightarrow>
          take 2 (new_events s (snd (snd (ak8963Read_sync cfg buf0 md s)))) =
            [ConfigRead AK8963_MAG_I2C_ADDRESS AK8963_MAG_REG_STATUS1 1,
             ConfigRead AK8963_MAG_I2C_ADDRESS AK8963_MAG_REG_HXL 7])"
proof (cases "\<not> ack \<or> buf1 0 AND STATUS1_DATA_READY = 0")
  case True
  with sync_no_data [OF assms, of md] config_read_trace [OF assms] show ?thesis
    by (simp add: new_events_def)
next
  case False
  then have ok: "ack" "buf1 0 AND STATUS1_DATA_READY \<noteq> 0" by simp_all
  from assms ok have rd: "ak8963config_read cfg AK8963_MAG_I2C_ADDRESS AK8963_MAG_REG_STATUS1 1 buf0 s
      = (True, buf1, s1)" by simp
  from sync_data_trace [OF rd ok(2), of md]
  have two: "take 2 (new_events s (snd (snd (ak8963Read_sync cfg buf0 md s)))) =
     [ConfigRead AK8963_MAG_I2C_ADDRESS AK8963_MAG_REG_STATUS1 1,
      ConfigRead AK8963_MAG_I2C_ADDRESS AK8963_MAG_REG_HXL 7]" .
  then have "new_events s (snd (snd (ak8963Read_sync cfg buf0 md s))) \<noteq>
      [ConfigRead AK8963_MAG_I2C_ADDRESS AK8963_MAG_REG_STATUS1 1]"
    by auto
  with two False show ?thesis by simp
qed

theorem sync_reader_gates_on_data_ready_only_witness:
  "new_events (initial_driver ())
      (snd (snd (ak8963Read_sync (register_file (device_regs 0x00 0 0) True True) zeros zeros (initial_driver ()))))
     = [ConfigRead AK8963_MAG_I2C_ADDRESS AK8963_MAG_REG_STATUS1 1]
   \<and> \<not> fst (ak8963Read_sync (register_file (device_regs 0x00 0 0) True True) zeros zeros (initial_driver ()))
   \<and> take 2 (new_events (initial_driver ())
      (snd (snd (ak8963Read_sync (register_file (device_regs 0x03 0 0) True True) zeros zeros (initial_driver ())))))
     = [ConfigRead AK8963_MAG_I2C_ADDRESS AK8963_MAG_REG_STATUS1 1,
        ConfigRead AK8963_MAG_I2C_ADDRESS AK8963_MAG_REG_HXL 7]"
proof -
  let ?s = "initial_driver () :: unit driver"
  let ?s1 = "?s\<lparr>trace := trace ?s @ [ConfigRead AK8963_MAG_I2C_ADDRESS AK8963_MAG_REG_STATUS1 1]\<rparr>"
  let ?buf1 = "\<lambda>v (i::nat). if i < unat (1 :: uint8_t)
                 then device_regs v 0 0 (AK8963_MAG_REG_STATUS1 + of_nat i) else (zeros :: bytes) i"
  have rd: "ak8963config_read (register_file (device_regs v 0 0) True True)
        AK8963_MAG_I2C_ADDRESS AK8963_MAG_REG_STATUS1 1 zeros ?s = (True, ?buf1 v, ?s1)" for v
    by (rule register_file_read)
  have idle: "?buf1 0x00 0 AND STATUS1_DATA_READY = 0"
    by (simp add: device_regs_def)
  have ready: "?buf1 0x03 0 AND STATUS1_DATA_READY \<noteq> 0"
    by (simp add: device_regs_def STATUS1_DATA_READY_def)
  from sync_reader_gates_on_data_ready_only [OF rd [of "0x00"], of zeros]
    sync_reader_gates_on_data_ready_only [OF rd [of "0x03"], of zeros] idle ready
  show ?thesis by (simp add: new_events_def)
qed

theorem sync_overrun_only_counterexample:
  "fst (ak8963config_read (register_file (device_regs 0x02 0 0) True True)
          AK8963_MAG_I2C_ADDRESS AK8963_MAG_REG_STATUS1 1 zeros (initial_driver ()))
   \<and> fst (snd (ak8963config_read (register_file (device_regs 0x02 0 0) True True)
          AK8963_MAG_I2C_ADDRESS AK8963_MAG_REG_STATUS1 1 zeros (initial_driver ()))) 0 = 0x02
   \<and> (0x02 :: uint8_t) AND STATUS1_DATA_OVERRUN = 0x02
   \<and> \<not> fst (ak8963Read_sync (register_file (device_regs 0x02 0 0) True True) zeros zeros (initial_driver ()))
   \<and> new_events (initial_driver ())
        (snd (snd (ak8963Read_sync (register_file (device_regs 0x02 0 0) True True) zeros zeros (initial_driver ()))))
       = [ConfigRead AK8963_MAG_I2C_ADDRESS AK8963_MAG_REG_STATUS1 1]"
proof -
  let ?cfg = "register_file (device_regs 0x02 0 0) True True"
  let ?s = "initial_driver () :: unit driver"
  let ?s1 = "?s\<lparr>trace := trace ?s @ [ConfigRead AK8963_MAG_I2C_ADDRESS AK8963_MAG_REG_STATUS1 1]\<rparr>"
  let ?buf1 = "\<lambda>i. if i < unat (1 :: uint8_t)
                     then device_regs 0x02 0 0 (AK8963_MAG_REG_STATUS1 + of_nat i) else (zeros :: bytes) i"
  have rd: "ak8963config_read ?cfg AK8963_MAG_I2C_ADDRESS AK8963_MAG_REG_STATUS1 1 zeros ?s = (True, ?buf1, ?s1)"
    by (rule register_file_read)
  have byte: "?buf1 0 = 0x02"
    by (simp add: device_regs_def)
  then have clear: "\<not> True \<or> ?buf1 0 AND STATUS1_DATA_READY = 0"
    by (simp add: STATUS1_DATA_READY_def)
  have over: "(0x02 :: uint8_t) AND STATUS1_DATA_OVERRUN = 0x02"
    by (simp add: STATUS1_DATA_OVERRUN_def)
  from sync_no_data [OF rd clear, of zeros] rd byte over show ?thesis
    by (simp add: new_events_def)
qed

text \<open>
  Claim C2. The claim says that a completed data read is suppressed exactly when bit 1 or
  bit 2 of the trailing status byte is set. In the code \<^verbatim>\<open>STATUS2_MAG_SENSOR_OVERFLOW\<close> is
  \<open>0x03\<close>, so in both variants of the reader the sample is suppressed exactly when bit 0 or
  bit 1 is set (for the synchronous variant: given acknowledged reads, data-ready set and
  an acknowledged re-arm write). The instances that follow run both variants on \<open>0x04\<close>,
  which yields a sample, and on \<open>0x01\<close>, which is suppressed.
\<close>

theorem status2_suppression_mask:
  assumes "state s = WAITING_FOR_DATA"
    and "fst (ak8963SPIQueuedReadTimeRemaining e s) = 0"
    and "ak8963config_read cfg AK8963_MAG_I2C_ADDRESS AK8963_MAG_REG_STATUS1 1 buf t = (True, buf1, t1)"
    and "buf1 0 AND STATUS1_DATA_READY \<noteq> 0"
    and "ak8963config_read cfg AK8963_MAG_I2C_ADDRESS AK8963_MAG_REG_HXL 7 buf1 t1 = (True, buf2, t2)"
    and "fst (ak8963config_write cfg AK8963_MAG_I2C_ADDRESS AK8963_MAG_REG_CNTL CNTL_MODE_ONCE t2)"
  shows "fst (ak8963Read_evo e buf md s) = (fst (snd (ak8963SPICompleteRead e buf s)) 6 AND 0x03 = 0)
    \<and> fst (ak8963Read_sync cfg buf md t) = (buf2 6 AND 0x03 = 0)"
proof -
  from assms(1,2) have "fst (ak8963Read_evo e buf md s) =
      (\<not> (fst (snd (ak8963SPICompleteRead e buf s)) 6 AND STATUS2_DATA_ERROR \<noteq> 0
          \<or> fst (snd (ak8963SPICompleteRead e buf s)) 6 AND STATUS2_MAG_SENSOR_OVERFLOW \<noteq> 0))"
    by (simp add: evo_fst)
  then have evo: "fst (ak8963Read_evo e buf md s) = (fst (snd (ak8963SPICompleteRead e buf s)) 6 AND 0x03 = 0)"
    by (simp only: overflow_mask_subsumes_error not_not)
  from sync_data [OF assms(3,4,5), of md] assms(6)
  have "fst (ak8963Read_sync cfg buf md t) =
      (\<not> (buf2 6 AND STATUS2_DATA_ERROR \<noteq> 0 \<or> buf2 6 AND STATUS2_MAG_SENSOR_OVERFLOW \<noteq> 0))"
    by simp
  then have sync: "fst (ak8963Read_sync cfg buf md t) = (buf2 6 AND 0x03 = 0)"
    by (simp only: overflow_mask_subsumes_error not_not)
  from evo sync show ?thesis by (rule conjI)
qed

theorem status2_suppression_mask_witness:
  "fst (ak8963Read_evo (steady_env 9000 (sample_with_status2 0x04)) zeros zeros
         (driver_in WAITING_FOR_DATA \<lparr>waiting = True, len = 7, readStartedAt = 0\<rparr>))
   \<and> fst (ak8963Read_sync (register_file (device_regs 0x01 0x04 0) True True) zeros zeros (initial_driver ()))
   \<and> \<not> fst (ak8963Read_evo (steady_env 9000 (sample_with_status2 0x01)) zeros zeros
         (driver_in WAITING_FOR_DATA \<lparr>waiting = True, len = 7, readStartedAt = 0\<rparr>))
   \<and> \<not> fst (ak8963Read_sync (register_file (device_regs 0x01 0x01 0) True True) zeros zeros (initial_driver ()))"
proof -
  let ?s = "driver_in WAITING_FOR_DATA \<lparr>waiting = True, len = 7, readStartedAt = 0\<rparr>"
  let ?t = "initial_driver () :: unit driver"
  let ?t1 = "?t\<lparr>trace := trace ?t @ [ConfigRead AK8963_MAG_I2C_ADDRESS AK8963_MAG_REG_STATUS1 1]\<rparr>"
  let ?t2 = "?t1\<lparr>trace := trace ?t1 @ [ConfigRead AK8963_MAG_I2C_ADDRESS AK8963_MAG_REG_HXL 7]\<rparr>"
  have st: "state ?s = WAITING_FOR_DATA"
    by (simp add: driver_in_def initial_driver_def)
  have due: "fst (ak8963SPIQueuedReadTimeRemaining (steady_env 9000 data) ?s) = 0" for data
    by (simp add: time_remaining_value driver_in_def initial_driver_def steady_env_def)
  have st2: "fst (snd (ak8963SPICompleteRead (steady_env 9000 (sample_with_status2 v)) zeros ?s)) 6 = v" for v
    by (simp add: CR_buf driver_in_def initial_driver_def steady_env_def sample_with_status2_def)
  let ?buf1 = "\<lambda>v (i::nat). if i < unat (1 :: uint8_t)
                 then device_regs 0x01 v 0 (AK8963_MAG_REG_STATUS1 + of_nat i) else (zeros :: bytes) i"
  let ?buf2 = "\<lambda>v (i::nat). if i < unat (7 :: uint8_t)
                 then device_regs 0x01 v 0 (AK8963_MAG_REG_HXL + of_nat i) else ?buf1 v i"
  have rd1: "ak8963config_read (register_file (device_regs 0x01 v 0) True True)
        AK8963_MAG_I2C_ADDRESS AK8963_MAG_REG_STATUS1 1 zeros ?t = (True, ?buf1 v, ?t1)" for v
    by (rule register_file_read)
  have ready: "?buf1 v 0 AND STATUS1_DATA_READY \<noteq> 0" for v
    by (simp add: device_regs_def STATUS1_DATA_READY_def)
  have rd2: "ak8963config_read (register_file (device_regs 0x01 v 0) True True)
        AK8963_MAG_I2C_ADDRESS AK8963_MAG_REG_HXL 7 (?buf1 v) ?t1 = (True, ?buf2 v, ?t2)" for v
    by (rule register_file_read)
  have wr: "fst (ak8963config_write (register_file (device_regs 0x01 v 0) True True)
        AK8963_MAG_I2C_ADDRESS AK8963_MAG_REG_CNTL CNTL_MODE_ONCE ?t2)" for v
    by (simp add: register_file_write)
  have b6: "?buf2 v 6 = v" for v
    by (simp add: device_regs_def register_defs)
  from status2_suppression_mask [OF st due [of "sample_with_status2 0x04"]
      rd1 [of "0x04"] ready [of "0x04"] rd2 [of "0x04"] wr [of "0x04"], of zeros]
    status2_suppression_mask [OF st due [of "sample_with_status2 0x01"]
      rd1 [of "0x01"] ready [of "0x01"] rd2 [of "0x01"] wr [of "0x01"], of zeros]
  show ?thesis
    by (simp only: st2 b6) simp
qed

text \<open>
  Claim C3, as amended. When the status read and the data read of the synchronous reader
  are acknowledged, data-ready is set and the trailing status byte has neither the
  data-error bit (bit 1) nor the sensor-overflow bit (bit 2) set, and bit 0 is clear as
  well, the decoded sample is stored in the caller's array and the invocation returns the
  acknowledgment of the re-arm write: it reports a produced sample exactly when that write
  is acknowledged. Bit 0 is named because the mask with which the code tests for overflow
  covers it; what the reader does when bit 0 is set is not part of this statement. The
  sample stored is, for each axis, the binary32 product of the negated raw value and the
  gain, truncated towards zero, and not determined where that is outside \<^verbatim>\<open>int16_t\<close>. The
  counterexample below is a device that acknowledges both reads and not the write: the
  invocation returns false.
\<close>

theorem sync_result_is_rearm_acknowledgment:
  assumes "ak8963config_read cfg AK8963_MAG_I2C_ADDRESS AK8963_MAG_REG_STATUS1 1 buf0 s = (True, buf1, s1)"
    and "buf1 0 AND STATUS1_DATA_READY \<noteq> 0"
    and "ak8963config_read cfg AK8963_MAG_I2C_ADDRESS AK8963_MAG_REG_HXL 7 buf1 s1 = (True, buf2, s2)"
    and "buf2 6 AND 0x02 = 0"
    and "buf2 6 AND 0x04 = 0"
    and "buf2 6 AND 0x01 = 0"
    and "ak8963config_write cfg AK8963_MAG_I2C_ADDRESS AK8963_MAG_REG_CNTL CNTL_MODE_ONCE s2 = (wack, s3)"
  shows "ak8963Read_sync cfg buf0 md s = (wack, decode buf2 (magGain s2) md, s3)"
proof -
  have "buf2 6 AND 0x03 = (buf2 6 AND 0x01) OR (buf2 6 AND 0x02)"
    using bit.conj_disj_distrib [of "buf2 6" "0x01" "0x02"] by simp
  with assms(4,6) have "buf2 6 AND 0x03 = 0" by simp
  with assms(4) have "buf2 6 AND STATUS2_DATA_ERROR = 0" "buf2 6 AND STATUS2_MAG_SENSOR_OVERFLOW = 0"
    by (simp_all add: STATUS2_DATA_ERROR_def STATUS2_MAG_SENSOR_OVERFLOW_def)
  with sync_data [OF assms(1,2,3), of md] assms(7) show ?thesis by simp
qed

theorem sync_result_is_rearm_acknowledgment_witness:
  "fst (ak8963Read_sync (register_file (device_regs 0x01 0 0x01) True True) zeros zeros (initial_driver ()))
   \<and> map (fst (snd (ak8963Read_sync (register_file (device_regs 0x01 0 0x01) True True) zeros zeros
          (initial_driver ())))) [X, Y, Z]
       = [Stored (- 257), Stored (- 257), Stored (- 257)]"
proof -
  let ?cfg = "register_file (device_regs 0x01 0 0x01) True True"
  let ?t = "initial_driver () :: unit driver"
  let ?t1 = "?t\<lparr>trace := trace ?t @ [ConfigRead AK8963_MAG_I2C_ADDRESS AK8963_MAG_REG_STATUS1 1]\<rparr>"
  let ?t2 = "?t1\<lparr>trace := trace ?t1 @ [ConfigRead AK8963_MAG_I2C_ADDRESS AK8963_MAG_REG_HXL 7]\<rparr>"
  let ?t3 = "?t2\<lparr>trace := trace ?t2 @ [ConfigWrite AK8963_MAG_I2C_ADDRESS AK8963_MAG_REG_CNTL CNTL_MODE_ONCE]\<rparr>"
  let ?buf1 = "\<lambda>i::nat. if i < unat (1 :: uint8_t)
                 then device_regs 0x01 0 0x01 (AK8963_MAG_REG_STATUS1 + of_nat i) else (zeros :: bytes) i"
  let ?buf2 = "\<lambda>i::nat. if i < unat (7 :: uint8_t)
                 then device_regs 0x01 0 0x01 (AK8963_MAG_REG_HXL + of_nat i) else ?buf1 i"
  have rd1: "ak8963config_read ?cfg AK8963_MAG_I2C_ADDRESS AK8963_MAG_REG_STATUS1 1 zeros ?t = (True, ?buf1, ?t1)"
    by (rule register_file_read)
  have ready: "?buf1 0 AND STATUS1_DATA_READY \<noteq> 0"
    by (simp add: device_regs_def STATUS1_DATA_READY_def)
  have rd2: "ak8963config_read ?cfg AK8963_MAG_I2C_ADDRESS AK8963_MAG_REG_HXL 7 ?buf1 ?t1 = (True, ?buf2, ?t2)"
    by (rule register_file_read)
  have good: "?buf2 6 AND 0x02 = 0" "?buf2 6 AND 0x04 = 0" "?buf2 6 AND 0x01 = 0"
    by (simp_all add: device_regs_def register_defs)
  have wr: "ak8963config_write ?cfg AK8963_MAG_I2C_ADDRESS AK8963_MAG_REG_CNTL CNTL_MODE_ONCE ?t2 = (True, ?t3)"
    by (rule register_file_write)
  have bytes: "?buf2 0 = 0x01" "?buf2 (Suc 0) = 0x01" "?buf2 2 = 0x01" "?buf2 3 = 0x01"
    "?buf2 4 = 0x01" "?buf2 5 = 0x01"
    by (simp_all add: device_regs_def register_defs)
  have gain: "magGain ?t2 = (\<lambda>i. 1)"
    by (simp add: initial_driver_def)
  have dec: "map (decode ?buf2 (magGain ?t2) zeros) [X, Y, Z] = [Stored (- 257), Stored (- 257), Stored (- 257)]"
    unfolding gain using bytes by (rule decode_all_ones)
  from sync_result_is_rearm_acknowledgment [OF rd1 ready rd2 good wr, of zeros] dec show ?thesis
    by simp
qed

theorem sync_rearm_failure_counterexample:
  "fst (ak8963config_read (register_file (device_regs 0x01 0 0) True False)
          AK8963_MAG_I2C_ADDRESS AK8963_MAG_REG_STATUS1 1 zeros (initial_driver ()))
   \<and> fst (snd (ak8963config_read (register_file (device_regs 0x01 0 0) True False)
          AK8963_MAG_I2C_ADDRESS AK8963_MAG_REG_STATUS1 1 zeros (initial_driver ()))) 0 = 0x01
   \<and> fst (ak8963config_read (register_file (device_regs 0x01 0 0) True False)
          AK8963_MAG_I2C_ADDRESS AK8963_MAG_REG_HXL 7 zeros (initial_driver ()))
   \<and> fst (snd (ak8963config_read (register_file (device_regs 0x01 0 0) True False)
          AK8963_MAG_I2C_ADDRESS AK8963_MAG_REG_HXL 7 zeros (initial_driver ()))) 6 = 0
   \<and> \<not> fst (ak8963config_write (register_file (device_regs 0x01 0 0) True False)
          AK8963_MAG_I2C_ADDRESS AK8963_MAG_REG_CNTL CNTL_MODE_ONCE (initial_driver ()))
   \<and> \<not> fst (ak8963Read_sync (register_file (device_regs 0x01 0 0) True False) zeros zeros (initial_driver ()))"
  by (simp add: ak8963Read_sync_def register_file_read register_file_write device_regs_def
      register_defs Let_def)

subsection \<open>Calibration\<close>

text \<open>
  Claim C5, as amended. For each axis the gain that \<^verbatim>\<open>ak8963Init\<close> stores is
  \<open>(((signed8(b) - 128) / 256) + 1) * 30\<close> for the calibration byte \<open>b\<close> of that axis, where
  \<open>signed8\<close> reads the byte as two's complement, between \<open>-128\<close> and \<open>127\<close>. For \<open>b = 128\<close>
  that is \<open>signed8(b) = -128\<close> and the gain is 0, and every stored gain is below 30. The
  claim as stated gives 30 for \<open>b = 128\<close>; the counterexample is a device whose fuse ROM
  holds 128.
\<close>

theorem init_gain_formula:
  assumes "ak8963config_read cfg AK8963_MAG_I2C_ADDRESS AK8963_MAG_REG_ASAX 3 calibration0
             (fuse_rom_entered cfg s) = (ack, calibration, s')"
    and "axis = X \<or> axis = Y \<or> axis = Z"
  shows "magGain (ak8963Init evo cfg calibration0 status0 s) axis =
           (((of_int (sint (calibration axis)) - 128) / 256) + 1) * 30
    \<and> - 128 \<le> sint (calibration axis) \<and> sint (calibration axis) \<le> 127
    \<and> (calibration axis = 128 \<longrightarrow> magGain (ak8963Init evo cfg calibration0 status0 s) axis = 0)
    \<and> magGain (ak8963Init evo cfg calibration0 status0 s) axis < 30"
proof -
  have lo: "- 128 \<le> sint (calibration axis)" using sint_ge [of "calibration axis"] by simp
  have hi: "sint (calibration axis) < 128" using sint_lt [of "calibration axis"] by simp
  from assms have g: "magGain (ak8963Init evo cfg calibration0 status0 s) axis =
           (((of_int (sint (calibration axis)) - 128) / 256) + 1) * 30"
    by (auto simp add: init_gain calibration_gain_def axis_defs)
  have z: "(((of_int (sint (128 :: uint8_t)) - 128) / 256) + 1) * 30 = (0 :: rat)" by simp
  from hi have "(of_int (sint (calibration axis)) :: rat) < 128" 
    by (metis of_int_less_iff of_int_numeral)
  then have "(((of_int (sint (calibration axis)) - 128) / 256) + 1) * 30 < (30 :: rat)" by simp
  with g z lo hi show ?thesis by auto
qed

theorem init_gain_formula_witness:
  "magGain (ak8963Init False (register_file (\<lambda>r. 0) True True) zeros zeros (initial_driver ())) Y = 15
   \<and> magGain (ak8963Init True (register_file (\<lambda>r. 128) True True) zeros zeros (initial_driver ())) Z = 0"
proof -
  let ?s = "initial_driver () :: unit driver"
  let ?cal = "\<lambda>v (i::nat). if i < unat (3 :: uint8_t) then (v :: uint8_t) else (zeros :: bytes) i"
  have rd: "ak8963config_read (register_file (\<lambda>r. v) True True) AK8963_MAG_I2C_ADDRESS AK8963_MAG_REG_ASAX 3 zeros
        (fuse_rom_entered (register_file (\<lambda>r. v) True True) ?s) =
      (True, ?cal v, (fuse_rom_entered (register_file (\<lambda>r. v) True True) ?s)
          \<lparr>trace := trace (fuse_rom_entered (register_file (\<lambda>r. v) True True) ?s)
          @ [ConfigRead AK8963_MAG_I2C_ADDRESS AK8963_MAG_REG_ASAX 3]\<rparr>)" for v
    by (rule register_file_read)
  have y: "Y = X \<or> Y = Y \<or> Y = Z" and z: "Z = X \<or> Z = Y \<or> Z = Z" by simp_all
  from init_gain_formula [OF rd [of 0] y, of False zeros] init_gain_formula [OF rd [of 128] z, of True zeros]
  show ?thesis
    by (simp add: axis_defs)
qed

theorem init_gain_counterexample:
  "fst (snd (ak8963config_read (register_file (\<lambda>r. 128) True True) AK8963_MAG_I2C_ADDRESS
        AK8963_MAG_REG_ASAX 3 zeros
        (fuse_rom_entered (register_file (\<lambda>r. 128) True True) (initial_driver ())))) X = 128
   \<and> magGain (ak8963Init False (register_file (\<lambda>r. 128) True True) zeros zeros (initial_driver ())) X = 0
   \<and> magGain (ak8963Init False (register_file (\<lambda>r. 128) True True) zeros zeros (initial_driver ())) X \<noteq> 30"
  by (simp add: init_gain register_file_read calibration_gain_def axis_defs)

end
